theory Spec2Isabelle
  imports Main "HOL-Library.Word"
begin

section \<open>Dataset preparation script: \<^verbatim>\<open>create_datasets.py\<close>\<close>

text \<open>
  A shallow embedding of \<^verbatim>\<open>examples/classify/semi_supervised/img/scripts/create_datasets.py\<close>.
  The script is sequential Python; its effects are made explicit:
  \<^item> the output store reached through \<^verbatim>\<open>tf.io.gfile\<close> and \<^verbatim>\<open>tf.io.TFRecordWriter\<close> is a
    record \<open>filesystem\<close> that every writing function takes and returns;
  \<^item> what the script reads from outside (the network, the local image folder) and the
    library functions whose code is not part of the script (\<^verbatim>\<open>scipy.io.loadmat\<close>,
    \<^verbatim>\<open>tarfile\<close>, \<^verbatim>\<open>gzip\<close>, \<^verbatim>\<open>PIL.Image\<close>, \<^verbatim>\<open>objax.util.image.to_png\<close>) and the constant
    \<^verbatim>\<open>libml.data.core.DATA_DIR\<close> are fields of a record \<open>world\<close>, a parameter of every function
    that uses them;
  \<^item> every \<^verbatim>\<open>assert\<close> and every exception is a value \<open>Inl e\<close> of a sum type.
\<close>

subsection \<open>Errors\<close>

datatype error =
    AssertionError
  | KeyError string
  | ValueError
  | IndexError
  | TypeError
  | URLError string
  | FileNotFoundError string
  | ReadError
  | EncodeError

subsection \<open>Bytes, paths and string formatting\<close>

type_synonym byte = "8 word"
type_synonym bytes = "byte list"

text \<open>
  \<^verbatim>\<open>os.path.join\<close> (the POSIX version, as the loader's \<^verbatim>\<open>/Users/...\<close> path implies):
  \<^verbatim>\<open>
  for b in p:
      if b.startswith(sep):                   path = b
      elif not path or path.endswith(sep):    path += b
      else:                                   path += sep + b
  \<close>
\<close>

definition startswith_sep :: "string \<Rightarrow> bool" where
  "startswith_sep b = (case b of [] \<Rightarrow> False | c # _ \<Rightarrow> c = CHR ''/'')"

definition endswith_sep :: "string \<Rightarrow> bool" where
  "endswith_sep p = (p \<noteq> [] \<and> last p = CHR ''/'')"

definition os_path_join :: "string \<Rightarrow> string \<Rightarrow> string" where
  "os_path_join path b =
     (if startswith_sep b then b
      else if path = [] \<or> endswith_sep path then path @ b
      else path @ ''/'' @ b)"

definition os_path_join3 :: "string \<Rightarrow> string \<Rightarrow> string \<Rightarrow> string" where
  "os_path_join3 a b c = os_path_join (os_path_join a b) c"

text \<open>\<^verbatim>\<open>'%s-%s' % (name, sub_name)\<close> and \<^verbatim>\<open>'%s-%s.tfrecord' % (name, subset)\<close>.\<close>

definition fmt_name_sub :: "string \<Rightarrow> string \<Rightarrow> string" where
  "fmt_name_sub name sub_name = name @ ''-'' @ sub_name"

definition fmt_tfrecord :: "string \<Rightarrow> string \<Rightarrow> string" where
  "fmt_tfrecord name sub = name @ ''-'' @ sub @ ''.tfrecord''"

subsection \<open>The output store\<close>

text \<open>
  A serialized \<^verbatim>\<open>tf.train.Example\<close> is kept as the feature map it was built from
  (serialization is injective and the claims never look at its bytes), and a TFRecord
  container as the list of its records in the order they were written.
\<close>

datatype feature = BytesList "bytes list" | Int64List "int list"

type_synonym example = "string \<rightharpoonup> feature"

datatype content = TFRecords "example list" | Blob bytes | Text string

record filesystem =
  files :: "string \<rightharpoonup> content"
  dirs :: "string set"

text \<open>\<^verbatim>\<open>tf.io.gfile.exists\<close> is true of a file and of a directory.\<close>

definition gfile_exists :: "filesystem \<Rightarrow> string \<Rightarrow> bool" where
  "gfile_exists fsys p = (files fsys p \<noteq> None \<or> p \<in> dirs fsys)"

definition gfile_makedirs :: "string \<Rightarrow> filesystem \<Rightarrow> filesystem" where
  "gfile_makedirs p fsys = fsys\<lparr>dirs := insert p (dirs fsys)\<rparr>"

definition gfile_write :: "string \<Rightarrow> content \<Rightarrow> filesystem \<Rightarrow> filesystem" where
  "gfile_write p c fsys = fsys\<lparr>files := (files fsys)(p \<mapsto> c)\<rparr>"

text \<open>
  \<^verbatim>\<open>tf.io.TFRecordWriter(filename)\<close> creates or truncates the file; \<^verbatim>\<open>writer.write\<close> appends one
  record to it.
\<close>

definition writer_open :: "string \<Rightarrow> filesystem \<Rightarrow> filesystem" where
  "writer_open p fsys = gfile_write p (TFRecords []) fsys"

definition writer_write :: "string \<Rightarrow> example \<Rightarrow> filesystem \<Rightarrow> filesystem" where
  "writer_write p r fsys =
     (case files fsys p of
        Some (TFRecords rs) \<Rightarrow> gfile_write p (TFRecords (rs @ [r])) fsys
      | _ \<Rightarrow> fsys)"

subsection \<open>The environment of a run\<close>

text \<open>
  The state a run changes: the output store and (an observer, not a variable of the
  script) the names of the configurations whose loader has been called, in call order.
  Progress output (\<^verbatim>\<open>print\<close>, \<^verbatim>\<open>trange\<close>) is left out.
\<close>

record state =
  fs :: filesystem
  loader_calls :: "string list"

subsection \<open>Dataset splits and the record writer\<close>

text \<open>
  A split as the loaders return it: \<^verbatim>\<open>{'images': [png bytes, ...], 'labels': array}\<close>. Labels
  are the integer values of a one-dimensional numpy array.
\<close>

record dataset =
  images :: "bytes list"
  labels :: "int list"

definition int64_feature :: "int \<Rightarrow> feature" where
  "int64_feature v = Int64List [v]"

definition bytes_feature :: "bytes \<Rightarrow> feature" where
  "bytes_feature v = BytesList [v]"

text \<open>
  The body of the \<^verbatim>\<open>for x in trange(len(data['images']))\<close> loop:
  \<^verbatim>\<open>
  feat = dict(image=_bytes_feature(data['images'][x]), label=_int64_feature(data['labels'][x]))
  record = tf.train.Example(features=tf.train.Features(feature=feat))
  writer.write(record.SerializeToString())
  \<close>
\<close>

definition make_record :: "dataset \<Rightarrow> nat \<Rightarrow> example" where
  "make_record d x =
     [''image'' \<mapsto> bytes_feature (images d ! x), ''label'' \<mapsto> int64_feature (labels d ! x)]"

fun build_records :: "dataset \<Rightarrow> string \<Rightarrow> nat list \<Rightarrow> filesystem \<Rightarrow> filesystem" where
  "build_records d p [] fsys = fsys"
| "build_records d p (x # xs) fsys = build_records d p xs (writer_write p (make_record d x) fsys)"

text \<open>
  \<^verbatim>\<open>
  def _save_as_tfrecord(data, filename):
      assert len(data['images']) == len(data['labels'])
      filename = os.path.join(core.DATA_DIR, filename + '.tfrecord')
      with tf.io.TFRecordWriter(filename) as writer:
          for x in trange(len(data['images']), desc='Building records'): ...
  \<close>
  The indices \<open>x\<close> stay below both lengths, by the assertion.
\<close>

definition tfrecord_path :: "string \<Rightarrow> string \<Rightarrow> string" where
  "tfrecord_path data_dir filename = os_path_join data_dir (filename @ ''.tfrecord'')"

definition save_as_tfrecord :: "string \<Rightarrow> dataset \<Rightarrow> string \<Rightarrow> state \<Rightarrow> (error + unit) \<times> state" where
  "save_as_tfrecord data_dir d filename st =
     (if length (images d) \<noteq> length (labels d) then (Inl AssertionError, st)
      else
        let p = tfrecord_path data_dir filename
        in (Inr (), st\<lparr>fs := build_records d p [0..<length (images d)] (writer_open p (fs st))\<rparr>))"

subsection \<open>The installation checker\<close>

text \<open>
  \<^verbatim>\<open>
  def _is_installed(name, checksums):
      for subset, checksum in checksums.items():
          filename = os.path.join(core.DATA_DIR, '%s-%s.tfrecord' % (name, subset))
          if not tf.io.gfile.exists(filename):
              return False
      return True
  \<close>
  The dictionary \<^verbatim>\<open>checksums\<close> is the list of its items in insertion order; every checksum
  of the script is \<^verbatim>\<open>None\<close>.
\<close>

type_synonym checksums = "(string \<times> string option) list"

fun is_installed :: "string \<Rightarrow> filesystem \<Rightarrow> string \<Rightarrow> checksums \<Rightarrow> bool" where
  "is_installed data_dir fsys name [] = True"
| "is_installed data_dir fsys name ((sub, checksum) # rest) =
     (if \<not> gfile_exists fsys (os_path_join data_dir (fmt_tfrecord name sub)) then False
      else is_installed data_dir fsys name rest)"

subsection \<open>Results that may fail\<close>

text \<open>A statement that raises ends the function: \<open>ebind\<close> passes the first error on.\<close>

definition ebind :: "error + 'a \<Rightarrow> ('a \<Rightarrow> error + 'b) \<Rightarrow> error + 'b" where
  "ebind m f = (case m of Inl e \<Rightarrow> Inl e | Inr x \<Rightarrow> f x)"

text \<open>A list comprehension \<^verbatim>\<open>[f(x) for x in xs]\<close>: left to right, stopping at the first error.\<close>

fun emap :: "('a \<Rightarrow> error + 'b) \<Rightarrow> 'a list \<Rightarrow> error + 'b list" where
  "emap f [] = Inr []"
| "emap f (x # xs) =
     (case f x of
        Inl e \<Rightarrow> Inl e
      | Inr y \<Rightarrow> (case emap f xs of Inl e \<Rightarrow> Inl e | Inr ys \<Rightarrow> Inr (y # ys)))"

text \<open>\<^verbatim>\<open>d[k]\<close> on a dictionary.\<close>

definition lookup :: "(string \<rightharpoonup> 'v) \<Rightarrow> string \<Rightarrow> error + 'v" where
  "lookup m k = (case m k of None \<Rightarrow> Inl (KeyError k) | Some v \<Rightarrow> Inr v)"

subsection \<open>numpy arrays\<close>

text \<open>
  An array is its shape and its elements in row-major (C) order, which is the order numpy's
  \<^verbatim>\<open>reshape\<close>, \<^verbatim>\<open>flatten\<close> and indexing use whatever the memory layout. An array built by numpy
  has as many elements as its shape says (\<open>well_formed\<close>).
\<close>

record 'a ndarray =
  shape :: "nat list"
  elems :: "'a list"

definition well_formed :: "'a ndarray \<Rightarrow> bool" where
  "well_formed a = (length (elems a) = prod_list (shape a))"

text \<open>Row-major strides, in elements: the stride of an axis is the product of the later axes.\<close>

fun strides :: "nat list \<Rightarrow> nat list" where
  "strides [] = []"
| "strides (s # ss) = prod_list ss # strides ss"

fun offset :: "nat list \<Rightarrow> nat list \<Rightarrow> nat" where
  "offset (s # st) (i # idx) = i * s + offset st idx"
| "offset _ _ = 0"

fun unravel :: "nat list \<Rightarrow> nat \<Rightarrow> nat list" where
  "unravel [] k = []"
| "unravel (s # ss) k = (k div prod_list ss) # unravel ss (k mod prod_list ss)"

text \<open>\<^verbatim>\<open>a[i0, i1, ...]\<close> with one index for every axis, each within its axis.\<close>

definition item :: "'a ndarray \<Rightarrow> nat list \<Rightarrow> 'a" where
  "item a idx = elems a ! offset (strides (shape a)) idx"

text \<open>\<^verbatim>\<open>np.frombuffer(b, dtype=np.uint8)\<close>.\<close>

definition np_frombuffer :: "bytes \<Rightarrow> byte ndarray" where
  "np_frombuffer b = \<lparr>shape = [length b], elems = b\<rparr>"

text \<open>
  \<^verbatim>\<open>np.transpose(a, axes)\<close>: axis \<open>k\<close> of the result is axis \<open>axes[k]\<close> of \<open>a\<close>, so the result has the
  shape and the strides of \<open>a\<close> permuted by \<open>axes\<close>. \<open>axes\<close> must be a permutation of the axes of
  \<open>a\<close>.
\<close>

definition np_transpose :: "'a ndarray \<Rightarrow> nat list \<Rightarrow> error + 'a ndarray" where
  "np_transpose a axes =
     (let n = length (shape a) in
      if length axes \<noteq> n \<or> \<not> distinct axes \<or> \<not> list_all (\<lambda>k. k < n) axes then Inl ValueError
      else
        let sh = map (\<lambda>k. shape a ! k) axes;
            st = map (\<lambda>k. strides (shape a) ! k) axes
        in Inr \<lparr>shape = sh,
                elems = map (\<lambda>k. elems a ! offset st (unravel sh k)) [0..<prod_list sh]\<rparr>)"

text \<open>
  \<^verbatim>\<open>a.reshape(dims)\<close>: at most one dimension may be \<open>-1\<close> and is then inferred; the element count
  must not change.
\<close>

definition np_reshape :: "'a ndarray \<Rightarrow> int list \<Rightarrow> error + 'a ndarray" where
  "np_reshape a dims =
     (let n = length (elems a) in
      if list_ex (\<lambda>d. d < -1) dims \<or> 1 < count_list dims (-1) then Inl ValueError
      else if count_list dims (-1) = 1 then
        (let known = prod_list (map nat (filter (\<lambda>d. d \<noteq> -1) dims)) in
         if known = 0 \<or> n mod known \<noteq> 0 then Inl ValueError
         else Inr \<lparr>shape = map (\<lambda>d. if d = -1 then n div known else nat d) dims, elems = elems a\<rparr>)
      else if prod_list (map nat dims) \<noteq> n then Inl ValueError
      else Inr \<lparr>shape = map nat dims, elems = elems a\<rparr>)"

text \<open>\<^verbatim>\<open>a.flatten()\<close> and \<^verbatim>\<open>a.reshape((-1))\<close>.\<close>

definition np_flatten :: "'a ndarray \<Rightarrow> 'a ndarray" where
  "np_flatten a = \<lparr>shape = [length (elems a)], elems = elems a\<rparr>"

text \<open>\<^verbatim>\<open>a.shape[0]\<close>.\<close>

definition shape0 :: "'a ndarray \<Rightarrow> error + nat" where
  "shape0 a = (case shape a of [] \<Rightarrow> Inl IndexError | n # _ \<Rightarrow> Inr n)"

text \<open>\<^verbatim>\<open>a[x]\<close> for \<open>x\<close> below \<^verbatim>\<open>a.shape[0]\<close>: the \<open>x\<close>-th sub-array along the first axis.\<close>

definition subarray :: "'a ndarray \<Rightarrow> nat \<Rightarrow> 'a ndarray" where
  "subarray a x =
     (let m = prod_list (tl (shape a))
      in \<lparr>shape = tl (shape a), elems = take m (drop (x * m) (elems a))\<rparr>)"

text \<open>
  \<^verbatim>\<open>np.concatenate(arrays, axis=0)\<close>: at least one array, all of at least one dimension and
  equal in every axis but the first.
\<close>

definition np_concatenate :: "'a ndarray list \<Rightarrow> error + 'a ndarray" where
  "np_concatenate arrs =
     (case arrs of
        [] \<Rightarrow> Inl ValueError
      | a # _ \<Rightarrow>
          if list_ex (\<lambda>b. shape b = [] \<or> tl (shape b) \<noteq> tl (shape a)) arrs then Inl ValueError
          else Inr \<lparr>shape = sum_list (map (\<lambda>b. hd (shape b)) arrs) # tl (shape a),
                    elems = concat (map elems arrs)\<rparr>)"

text \<open>
  \<^verbatim>\<open>np.array([a1, ..., an])\<close> of arrays: stacked along a new first axis when all have one
  shape, an error otherwise; of the empty list, the empty one-dimensional array.
\<close>

definition np_array :: "'a ndarray list \<Rightarrow> error + 'a ndarray" where
  "np_array arrs =
     (case arrs of
        [] \<Rightarrow> Inr \<lparr>shape = [0], elems = []\<rparr>
      | a # _ \<Rightarrow>
          if list_ex (\<lambda>b. shape b \<noteq> shape a) arrs then Inl ValueError
          else Inr \<lparr>shape = length arrs # shape a, elems = concat (map elems arrs)\<rparr>)"

subsection \<open>What a run reads from outside\<close>

text \<open>
  The functions of other libraries and the data they read. \<open>urlretrieve\<close> gives the bytes
  that \<^verbatim>\<open>request.urlretrieve(url, f.name)\<close> stores in the temporary file; \<open>local_file\<close> is the
  content of a file the script only reads through \<^verbatim>\<open>tf.io.gfile\<close>; \<open>tar_members\<close> is
  \<^verbatim>\<open>tarfile.open(fileobj=f)\<close> with the content of every member; \<open>image_open_resize f s\<close> is
  \<^verbatim>\<open>np.array(Image.open(f).resize((s, s)))\<close>. Each may raise.
\<close>

record world =
  DATA_DIR :: string
  urlretrieve :: "string \<Rightarrow> error + bytes"
  local_file :: "string \<rightharpoonup> bytes"
  tar_members :: "bytes \<Rightarrow> error + (string \<rightharpoonup> bytes)"
  gunzip :: "bytes \<Rightarrow> error + bytes"
  loadmat :: "bytes \<Rightarrow> error + (string \<rightharpoonup> byte ndarray)"
  listdir :: "string \<Rightarrow> error + string list"
  image_open_resize :: "string \<Rightarrow> nat \<Rightarrow> error + byte ndarray"
  to_png :: "byte ndarray \<Rightarrow> error + bytes"

definition URLS :: "string \<rightharpoonup> string" where
  "URLS =
     [''svhn'' \<mapsto> ''http://ufldl.stanford.edu/housenumbers/{}_32x32.mat'',
      ''cifar10'' \<mapsto> ''https://www.cs.toronto.edu/~kriz/cifar-10-matlab.tar.gz'',
      ''cifar100'' \<mapsto> ''https://www.cs.toronto.edu/~kriz/cifar-100-matlab.tar.gz'',
      ''stl10'' \<mapsto> ''http://ai.stanford.edu/~acoates/stl10/stl10_binary.tar.gz'',
      ''mnist'' \<mapsto> ''http://yann.lecun.com/exdb/mnist/{}'']"

text \<open>\<^verbatim>\<open>template.format(arg)\<close> for a template with one \<^verbatim>\<open>{}\<close>.\<close>

fun format1 :: "string \<Rightarrow> string \<Rightarrow> string" where
  "format1 (c # d # rest) arg =
     (if c = CHR ''{'' \<and> d = CHR ''}'' then arg @ rest else c # format1 (d # rest) arg)"
| "format1 cs arg = cs"

subsection \<open>The image encoder\<close>

text \<open>
  \<^verbatim>\<open>
  def _encode_png(images):
      return [to_png(images[x]) for x in trange(images.shape[0], desc='PNG Encoding', leave=False)]
  \<close>
\<close>

definition encode_png :: "world \<Rightarrow> byte ndarray \<Rightarrow> error + bytes list" where
  "encode_png w imgs =
     ebind (shape0 imgs) (\<lambda>n. emap (\<lambda>x. to_png w (subarray imgs x)) [0..<n])"

subsection \<open>The loaders\<close>

text \<open>
  A loader returns a dictionary from split names to splits; the STL-10 loader adds the key
  \<^verbatim>\<open>files\<close> with a list of named byte strings, and the driver knows a key \<^verbatim>\<open>readme\<close> with a
  text. The dictionary is the list of its items in insertion order.
\<close>

datatype split_data = Dataset dataset | Readme string | Files "(string \<times> bytes) list"

type_synonym datas = "(string \<times> split_data) list"

text \<open>The labels of a \<^verbatim>\<open>uint8\<close> array, as the integers the record writer receives.\<close>

definition label_values :: "byte list \<Rightarrow> int list" where
  "label_values ys = map uint ys"

subsubsection \<open>SVHN\<close>

text \<open>
  The body of the loop of \<^verbatim>\<open>_load_svhn\<close> after \<^verbatim>\<open>loadmat\<close>:
  \<^verbatim>\<open>
  dataset['images'] = np.transpose(data_dict['X'], [3, 0, 1, 2])
  dataset['images'] = _encode_png(dataset['images'])
  dataset['labels'] = data_dict['y'].reshape((-1))
  # SVHN raw data uses labels from 1 to 10; use 0 to 9 instead.
  dataset['labels'] %= 10  # Label number 10 is for 0.
  \<close>
\<close>

definition svhn_labels :: "byte ndarray \<Rightarrow> error + byte list" where
  "svhn_labels y = ebind (np_reshape y [-1]) (\<lambda>r. Inr (map (\<lambda>v. v mod 10) (elems r)))"

definition svhn_dataset :: "world \<Rightarrow> (string \<rightharpoonup> byte ndarray) \<Rightarrow> error + dataset" where
  "svhn_dataset w data_dict =
     ebind (lookup data_dict ''X'') (\<lambda>X.
     ebind (np_transpose X [3, 0, 1, 2]) (\<lambda>imgs.
     ebind (encode_png w imgs) (\<lambda>pngs.
     ebind (lookup data_dict ''y'') (\<lambda>y.
     ebind (svhn_labels y) (\<lambda>ls.
     Inr \<lparr>images = pngs, labels = label_values ls\<rparr>)))))"

definition svhn_split :: "world \<Rightarrow> string \<Rightarrow> error + string \<times> split_data" where
  "svhn_split w split =
     ebind (lookup URLS ''svhn'') (\<lambda>url.
     ebind (urlretrieve w (format1 url split)) (\<lambda>f.
     ebind (loadmat w f) (\<lambda>data_dict.
     ebind (svhn_dataset w data_dict) (\<lambda>d. Inr (split, Dataset d)))))"

definition load_svhn :: "world \<Rightarrow> error + datas" where
  "load_svhn w = emap (svhn_split w) [''train'', ''test'', ''extra'']"

subsubsection \<open>STL-10\<close>

text \<open>
  \<^verbatim>\<open>
  def unflatten(images):
      return np.transpose(images.reshape((-1, 3, 96, 96)), [0, 3, 2, 1])
  \<close>
\<close>

definition stl10_unflatten :: "'a ndarray \<Rightarrow> error + 'a ndarray" where
  "stl10_unflatten imgs = ebind (np_reshape imgs [-1, 3, 96, 96]) (\<lambda>r. np_transpose r [0, 3, 2, 1])"

text \<open>
  The archive is read from \<^verbatim>\<open>stl10/stl10_binary.tar.gz\<close> when that file exists and downloaded
  otherwise. The labels of the two labelled splits are the bytes of the label file minus
  one, in \<^verbatim>\<open>uint8\<close> arithmetic; the labels of the unlabelled split are
  \<^verbatim>\<open>np.zeros(100000, dtype=np.uint8)\<close>.
\<close>

definition stl10_archive :: "world \<Rightarrow> error + bytes" where
  "stl10_archive w =
     (case local_file w ''stl10/stl10_binary.tar.gz'' of
        Some b \<Rightarrow> Inr b
      | None \<Rightarrow> ebind (lookup URLS ''stl10'') (\<lambda>url. urlretrieve w url))"

definition load_stl10 :: "world \<Rightarrow> error + datas" where
  "load_stl10 w =
     ebind (stl10_archive w) (\<lambda>f.
     ebind (tar_members w f) (\<lambda>tar.
     ebind (lookup tar ''stl10_binary/train_X.bin'') (\<lambda>train_x.
     ebind (lookup tar ''stl10_binary/train_y.bin'') (\<lambda>train_y.
     ebind (lookup tar ''stl10_binary/test_X.bin'') (\<lambda>test_x.
     ebind (lookup tar ''stl10_binary/test_y.bin'') (\<lambda>test_y.
     ebind (lookup tar ''stl10_binary/unlabeled_X.bin'') (\<lambda>unlabeled_x.
     ebind (lookup tar ''stl10_binary/fold_indices.txt'') (\<lambda>fold_indices.
     ebind (stl10_unflatten (np_frombuffer train_x)) (\<lambda>train_u.
     ebind (encode_png w train_u) (\<lambda>train_png.
     ebind (stl10_unflatten (np_frombuffer test_x)) (\<lambda>test_u.
     ebind (encode_png w test_u) (\<lambda>test_png.
     ebind (stl10_unflatten (np_frombuffer unlabeled_x)) (\<lambda>unlabeled_u.
     ebind (encode_png w unlabeled_u) (\<lambda>unlabeled_png.
     Inr [(''train'', Dataset \<lparr>images = train_png,
                                labels = label_values (map (\<lambda>v. v - 1) train_y)\<rparr>),
          (''test'', Dataset \<lparr>images = test_png,
                               labels = label_values (map (\<lambda>v. v - 1) test_y)\<rparr>),
          (''unlabeled'', Dataset \<lparr>images = unlabeled_png,
                                    labels = label_values (replicate 100000 0)\<rparr>),
          (''files'', Files [(''stl10_fold_indices.txt'', fold_indices)])]))))))))))))))"

subsubsection \<open>CIFAR-10 and CIFAR-100\<close>

text \<open>
  \<^verbatim>\<open>
  def unflatten(images):
      return np.transpose(images.reshape((images.shape[0], 3, 32, 32)), [0, 2, 3, 1])
  \<close>
\<close>

definition cifar_unflatten :: "'a ndarray \<Rightarrow> error + 'a ndarray" where
  "cifar_unflatten imgs =
     ebind (shape0 imgs) (\<lambda>n.
     ebind (np_reshape imgs [int n, 3, 32, 32]) (\<lambda>r. np_transpose r [0, 2, 3, 1]))"

text \<open>
  One \<^verbatim>\<open>.mat\<close> member of the archive: the pair of its image rows \<^verbatim>\<open>data_dict['data']\<close> and its
  flattened labels \<^verbatim>\<open>data_dict[label_key].flatten()\<close>.
\<close>

definition cifar_batch ::
  "world \<Rightarrow> (string \<rightharpoonup> bytes) \<Rightarrow> string \<Rightarrow> string \<Rightarrow> error + byte ndarray \<times> byte ndarray" where
  "cifar_batch w tar member label_key =
     ebind (lookup tar member) (\<lambda>m.
     ebind (loadmat w m) (\<lambda>data_dict.
     ebind (lookup data_dict ''data'') (\<lambda>dat.
     ebind (lookup data_dict label_key) (\<lambda>ls. Inr (dat, np_flatten ls)))))"

definition cifar_set :: "world \<Rightarrow> byte ndarray \<Rightarrow> byte ndarray \<Rightarrow> error + split_data" where
  "cifar_set w imgs ls =
     ebind (cifar_unflatten imgs) (\<lambda>u.
     ebind (encode_png w u) (\<lambda>pngs.
     Inr (Dataset \<lparr>images = pngs, labels = label_values (elems ls)\<rparr>)))"

definition load_cifar10 :: "world \<Rightarrow> error + datas" where
  "load_cifar10 w =
     ebind (lookup URLS ''cifar10'') (\<lambda>url.
     ebind (urlretrieve w url) (\<lambda>f.
     ebind (tar_members w f) (\<lambda>tar.
     ebind (emap (\<lambda>batch. cifar_batch w tar
                    (''cifar-10-batches-mat/data_batch_'' @ batch @ ''.mat'') ''labels'')
              [''1'', ''2'', ''3'', ''4'', ''5'']) (\<lambda>batches.
     ebind (np_concatenate (map fst batches)) (\<lambda>train_images.
     ebind (np_concatenate (map snd batches)) (\<lambda>train_labels.
     ebind (cifar_batch w tar ''cifar-10-batches-mat/test_batch.mat'' ''labels'') (\<lambda>test_batch.
     ebind (cifar_set w train_images train_labels) (\<lambda>train_set.
     ebind (cifar_set w (fst test_batch) (snd test_batch)) (\<lambda>test_set.
     Inr [(''train'', train_set), (''test'', test_set)])))))))))"

definition load_cifar100 :: "world \<Rightarrow> error + datas" where
  "load_cifar100 w =
     ebind (lookup URLS ''cifar100'') (\<lambda>url.
     ebind (urlretrieve w url) (\<lambda>f.
     ebind (tar_members w f) (\<lambda>tar.
     ebind (cifar_batch w tar ''cifar-100-matlab/train.mat'' ''fine_labels'') (\<lambda>train_mat.
     ebind (cifar_batch w tar ''cifar-100-matlab/test.mat'' ''fine_labels'') (\<lambda>test_mat.
     ebind (cifar_set w (fst train_mat) (snd train_mat)) (\<lambda>train_set.
     ebind (cifar_set w (fst test_mat) (snd test_mat)) (\<lambda>test_set.
     Inr [(''train'', train_set), (''test'', test_set)])))))))"

subsubsection \<open>MNIST and Fashion-MNIST\<close>

text \<open>
  \<^verbatim>\<open>
  def _read32(data):
      dt = np.dtype(np.uint32).newbyteorder('>')
      return np.frombuffer(data.read(4), dtype=dt)[0]
  \<close>
  \<open>data\<close> is a stream: the bytes not yet read. \<^verbatim>\<open>data.read(n)\<close> returns at most \<open>n\<close> of
  them. Fewer than four bytes make \<^verbatim>\<open>frombuffer\<close> fail, none at all makes the index fail.
\<close>

definition stream_read :: "nat \<Rightarrow> bytes \<Rightarrow> bytes \<times> bytes" where
  "stream_read n s = (take n s, drop n s)"

definition be32 :: "bytes \<Rightarrow> 32 word" where
  "be32 b = of_nat (foldl (\<lambda>acc x. acc * 256 + unat x) 0 b)"

definition read32 :: "bytes \<Rightarrow> error + 32 word \<times> bytes" where
  "read32 s =
     (let (b, s') = stream_read 4 s
      in if b = [] then Inl IndexError
         else if length b \<noteq> 4 then Inl ValueError
         else Inr (be32 b, s'))"

text \<open>
  The image file: magic number 2051, then the counts, then \<^verbatim>\<open>n_images * row * col\<close> bytes
  (a product of \<^verbatim>\<open>np.uint32\<close> values, which wraps), reshaped to
  \<^verbatim>\<open>(n_images, row, col, 1)\<close>. The label file: magic number 2049, the count, the labels.
\<close>

definition idx_images :: "bytes \<Rightarrow> error + byte ndarray" where
  "idx_images s0 =
     ebind (read32 s0) (\<lambda>(magic, s1).
     if magic \<noteq> 2051 then Inl AssertionError else
     ebind (read32 s1) (\<lambda>(n_images, s2).
     ebind (read32 s2) (\<lambda>(row, s3).
     ebind (read32 s3) (\<lambda>(col, s4).
     np_reshape (np_frombuffer (fst (stream_read (unat (n_images * row * col)) s4)))
       [uint n_images, uint row, uint col, 1]))))"

definition idx_labels :: "bytes \<Rightarrow> error + byte list" where
  "idx_labels s0 =
     ebind (read32 s0) (\<lambda>(magic, s1).
     if magic \<noteq> 2049 then Inl AssertionError else
     ebind (read32 s1) (\<lambda>(n_labels, s2).
     Inr (fst (stream_read (unat n_labels) s2))))"

text \<open>
  One round of the loop over \<^verbatim>\<open>[('train', 'train'), ('test', 't10k')]\<close>, for the key of
  \<^verbatim>\<open>URLS\<close> and the two file name templates of the loader.
\<close>

definition idx_split ::
  "world \<Rightarrow> string \<Rightarrow> string \<Rightarrow> string \<Rightarrow> string \<times> string \<Rightarrow> error + string \<times> split_data" where
  "idx_split w key image_filename label_filename sf =
     (case sf of (split, split_file) \<Rightarrow>
     ebind (lookup URLS key) (\<lambda>url.
     ebind (urlretrieve w (format1 url (format1 image_filename split_file))) (\<lambda>f.
     ebind (gunzip w f) (\<lambda>s0.
     ebind (idx_images s0) (\<lambda>imgs.
     ebind (lookup URLS key) (\<lambda>url2.
     ebind (urlretrieve w (format1 url2 (format1 label_filename split_file))) (\<lambda>g.
     ebind (gunzip w g) (\<lambda>t0.
     ebind (idx_labels t0) (\<lambda>ls.
     ebind (encode_png w imgs) (\<lambda>pngs.
     Inr (split, Dataset \<lparr>images = pngs, labels = label_values ls\<rparr>)))))))))))"

definition load_mnist :: "world \<Rightarrow> error + datas" where
  "load_mnist w =
     emap (idx_split w ''mnist'' ''{}-images-idx3-ubyte.gz'' ''{}-labels-idx1-ubyte.gz'')
       [(''train'', ''train''), (''test'', ''t10k'')]"

text \<open>\<^verbatim>\<open>_load_fashionmnist\<close> reads \<^verbatim>\<open>URLS['fashion_mnist']\<close>, a key \<^verbatim>\<open>URLS\<close> does not have.\<close>

definition load_fashionmnist :: "world \<Rightarrow> error + datas" where
  "load_fashionmnist w =
     emap (idx_split w ''fashion_mnist'' ''{}-images-idx3-ubyte'' ''{}-labels-idx1-ubyte'')
       [(''train'', ''train''), (''test'', ''t10k'')]"

subsubsection \<open>The local image folder\<close>

definition IMG_SIZE :: nat where
  "IMG_SIZE = 100"

definition DIR :: string where
  "DIR = ''/Users/jmarrietar/Dropbox/11_Semestre/Maestria/code/data/''"

definition TRAIN_DIR :: string where
  "TRAIN_DIR = os_path_join DIR ''train''"

definition TEST_DIR :: string where
  "TEST_DIR = os_path_join DIR ''test''"

text \<open>
  \<^verbatim>\<open>fnmatch.filter(names, "*.jpg")\<close> keeps, in order, the names that end in \<^verbatim>\<open>.jpg\<close> (on POSIX
  the match is case-sensitive).
\<close>

definition fnmatch_jpg :: "string \<Rightarrow> bool" where
  "fnmatch_jpg x = (4 \<le> length x \<and> drop (length x - 4) x = ''.jpg'')"

text \<open>
  \<^verbatim>\<open>
  [os.path.join(TRAIN_DIR, "0", x)
   for x in fnmatch.filter(os.listdir(os.path.join(TRAIN_DIR, "0")), "*.jpg")]
  \<close>
\<close>

definition class_imgs :: "world \<Rightarrow> string \<Rightarrow> string \<Rightarrow> error + string list" where
  "class_imgs w split_dir cls =
     ebind (listdir w (os_path_join split_dir cls)) (\<lambda>names.
     Inr (map (\<lambda>x. os_path_join3 split_dir cls x) (filter fnmatch_jpg names)))"

text \<open>
  \<^verbatim>\<open>
  np.array([np.array(Image.open(fname).resize((IMG_SIZE, IMG_SIZE))) for fname in train_imgs])
  \<close>
\<close>

definition open_images :: "world \<Rightarrow> string list \<Rightarrow> error + byte ndarray" where
  "open_images w fnames =
     ebind (emap (\<lambda>fname. image_open_resize w fname IMG_SIZE) fnames) np_array"

text \<open>
  \<^verbatim>\<open>
  np.array(list(np.zeros(len(train_0_imgs), dtype=np.int8))
           + list(np.ones(len(train_1_imgs), dtype=np.int8)))
  \<close>
\<close>

definition voets_labels :: "nat \<Rightarrow> nat \<Rightarrow> int list" where
  "voets_labels k0 k1 = replicate k0 0 @ replicate k1 1"

definition load_voets :: "world \<Rightarrow> error + datas" where
  "load_voets w =
     ebind (class_imgs w TRAIN_DIR ''0'') (\<lambda>train_0_imgs.
     ebind (class_imgs w TRAIN_DIR ''1'') (\<lambda>train_1_imgs.
     ebind (open_images w (train_0_imgs @ train_1_imgs)) (\<lambda>train_images.
     ebind (class_imgs w TEST_DIR ''0'') (\<lambda>test_0_imgs.
     ebind (class_imgs w TEST_DIR ''1'') (\<lambda>test_1_imgs.
     ebind (open_images w (test_0_imgs @ test_1_imgs)) (\<lambda>test_images.
     ebind (encode_png w train_images) (\<lambda>train_png.
     ebind (encode_png w test_images) (\<lambda>test_png.
     Inr [(''train'', Dataset \<lparr>images = train_png,
                                labels = voets_labels (length train_0_imgs) (length train_1_imgs)\<rparr>),
          (''test'', Dataset \<lparr>images = test_png,
                               labels = voets_labels (length test_0_imgs) (length test_1_imgs)\<rparr>)]))))))))"

subsection \<open>The registry and the driver\<close>

text \<open>
  An entry of \<^verbatim>\<open>CONFIGS\<close>: the keys \<^verbatim>\<open>loader\<close> and \<^verbatim>\<open>checksums\<close>, and the optional keys
  \<^verbatim>\<open>is_installed\<close> and \<^verbatim>\<open>saver\<close> that the driver looks for.
\<close>

type_synonym saver = "split_data \<Rightarrow> string \<Rightarrow> state \<Rightarrow> (error + unit) \<times> state"

record config =
  cfg_loader :: "world \<Rightarrow> error + datas"
  cfg_checksums :: checksums
  cfg_is_installed :: "(filesystem \<Rightarrow> bool) option"
  cfg_saver :: "saver option"

text \<open>
  The registry as the script defines it: the entries of the downloaded datasets are
  commented out,
  \<^verbatim>\<open>
  CONFIGS = {
      #'cifar10': dict(loader=_load_cifar10, checksums=dict(train=None, test=None)),
      'voets': dict(loader=_load_voets, checksums=dict(train=None, test=None)),
      #'cifar100': dict(loader=_load_cifar100, checksums=dict(train=None, test=None)),
      #'svhn': dict(loader=_load_svhn, checksums=dict(train=None, test=None, extra=None)),
      #'stl10': dict(loader=_load_stl10, checksums=dict(train=None, test=None)),
      #'mnist': dict(loader=_load_mnist, checksums=dict(train=None, test=None)),
  }
  \<close>
\<close>

definition CONFIGS :: "(string \<times> config) list" where
  "CONFIGS =
     [(''voets'', \<lparr>cfg_loader = load_voets,
                   cfg_checksums = [(''train'', None), (''test'', None)],
                   cfg_is_installed = None,
                   cfg_saver = None\<rparr>)]"

text \<open>
  The default saver is \<^verbatim>\<open>_save_as_tfrecord\<close>; it reads \<^verbatim>\<open>data['images']\<close>, which only a split
  has.
\<close>

definition default_saver :: "string \<Rightarrow> saver" where
  "default_saver data_dir d filename st =
     (case d of Dataset ds \<Rightarrow> save_as_tfrecord data_dir ds filename st | _ \<Rightarrow> (Inl TypeError, st))"

text \<open>
  \<^verbatim>\<open>
  for sub_name, data in datas.items():
      if sub_name == 'readme':
          filename = os.path.join(core.DATA_DIR, '%s-%s.txt' % (name, sub_name))
          with tf.io.gfile.GFile(filename, 'w') as f: f.write(data)
      elif sub_name == 'files':
          for file_and_data in data:
              path = os.path.join(core.DATA_DIR, file_and_data.filename)
              with tf.io.gfile.GFile(path, "wb") as f: f.write(file_and_data.data)
      else:
          saver(data, '%s-%s' % (name, sub_name))
  \<close>
\<close>

definition save_one :: "string \<Rightarrow> saver \<Rightarrow> string \<Rightarrow> string \<times> split_data \<Rightarrow> state \<Rightarrow> (error + unit) \<times> state" where
  "save_one data_dir sv name entry st =
     (case entry of (sub_name, d) \<Rightarrow>
        if sub_name = ''readme'' then
          (case d of
             Readme txt \<Rightarrow>
               (Inr (), st\<lparr>fs := gfile_write (os_path_join data_dir (fmt_name_sub name sub_name @ ''.txt''))
                                    (Text txt) (fs st)\<rparr>)
           | _ \<Rightarrow> (Inl TypeError, st))
        else if sub_name = ''files'' then
          (case d of
             Files fl \<Rightarrow>
               (Inr (), st\<lparr>fs := fold (\<lambda>(filename, dat). gfile_write (os_path_join data_dir filename) (Blob dat))
                                    fl (fs st)\<rparr>)
           | _ \<Rightarrow> (Inl TypeError, st))
        else sv d (fmt_name_sub name sub_name) st)"

fun save_datas :: "string \<Rightarrow> saver \<Rightarrow> string \<Rightarrow> datas \<Rightarrow> state \<Rightarrow> (error + unit) \<times> state" where
  "save_datas data_dir sv name [] st = (Inr (), st)"
| "save_datas data_dir sv name (entry # rest) st =
     (case save_one data_dir sv name entry st of
        (Inl e, st') \<Rightarrow> (Inl e, st')
      | (Inr _, st') \<Rightarrow> save_datas data_dir sv name rest st')"

text \<open>
  \<^verbatim>\<open>
  if 'is_installed' in config:
      if config['is_installed'](): continue
  elif _is_installed(name, config['checksums']): continue
  \<close>
\<close>

definition skip_installed :: "world \<Rightarrow> string \<Rightarrow> config \<Rightarrow> filesystem \<Rightarrow> bool" where
  "skip_installed w name cfg fsys =
     (case cfg_is_installed cfg of
        Some chk \<Rightarrow> chk fsys
      | None \<Rightarrow> is_installed (DATA_DIR w) fsys name (cfg_checksums cfg))"

text \<open>
  The body of the driver's loop after the two \<^verbatim>\<open>continue\<close> tests: the loader is called (and
  recorded), then every item it returned is saved.
\<close>

definition prepare :: "world \<Rightarrow> string \<Rightarrow> config \<Rightarrow> state \<Rightarrow> (error + unit) \<times> state" where
  "prepare w name cfg st =
     (let st1 = st\<lparr>loader_calls := loader_calls st @ [name]\<rparr>
      in case cfg_loader cfg w of
           Inl e \<Rightarrow> (Inl e, st1)
         | Inr ds \<Rightarrow>
             save_datas (DATA_DIR w)
               (case cfg_saver cfg of Some sv \<Rightarrow> sv | None \<Rightarrow> default_saver (DATA_DIR w))
               name ds st1)"

fun main_loop :: "world \<Rightarrow> string set \<Rightarrow> (string \<times> config) list \<Rightarrow> state \<Rightarrow> (error + unit) \<times> state" where
  "main_loop w requested [] st = (Inr (), st)"
| "main_loop w requested ((name, cfg) # rest) st =
     (if name \<notin> requested then main_loop w requested rest st
      else if skip_installed w name cfg (fs st) then main_loop w requested rest st
      else
        (case prepare w name cfg st of
           (Inl e, st') \<Rightarrow> (Inl e, st')
         | (Inr _, st') \<Rightarrow> main_loop w requested rest st'))"

text \<open>
  \<^verbatim>\<open>
  def main(argv):
      if len(argv[1:]): subset = set(argv[1:])
      else:             subset = set(CONFIGS.keys())
      tf.io.gfile.makedirs(core.DATA_DIR)
      for name, config in CONFIGS.items(): ...
  \<close>
\<close>

definition main_with :: "(string \<times> config) list \<Rightarrow> world \<Rightarrow> string list \<Rightarrow> state \<Rightarrow> (error + unit) \<times> state" where
  "main_with configs w argv st =
     (let requested = (if length (drop 1 argv) \<noteq> 0 then set (drop 1 argv) else set (map fst configs))
      in main_loop w requested configs (st\<lparr>fs := gfile_makedirs (DATA_DIR w) (fs st)\<rparr>))"

definition main :: "world \<Rightarrow> string list \<Rightarrow> state \<Rightarrow> (error + unit) \<times> state" where
  "main w argv st = main_with CONFIGS w argv st"

text \<open>
  Whether the registry's only key is among the requested names: the command line names it, or
  names nothing (then every key of \<^verbatim>\<open>CONFIGS\<close> is requested).
\<close>

definition voets_requested :: "string list \<Rightarrow> bool" where
  "voets_requested argv = (drop 1 argv = [] \<or> ''voets'' \<in> set (drop 1 argv))"

subsection \<open>Concrete inputs\<close>

text \<open>Small inputs on which the theorems below are instantiated.\<close>

definition st0 :: state where
  "st0 = \<lparr>fs = \<lparr>files = Map.empty, dirs = {}\<rparr>, loader_calls = []\<rparr>"

definition d3 :: dataset where
  "d3 = \<lparr>images = [[1, 2], [3], []], labels = [0, 1, 2]\<rparr>"

definition d_bad :: dataset where
  "d_bad = \<lparr>images = [[1, 2], [3]], labels = [0, 1, 2]\<rparr>"

definition fs_installed :: filesystem where
  "fs_installed =
     \<lparr>files = [''data/voets-train.tfrecord'' \<mapsto> TFRecords [],
               ''data/voets-test.tfrecord'' \<mapsto> TFRecords []],
      dirs = {''data''}\<rparr>"

text \<open>
  A flattened CIFAR-style array of two images and an STL-style buffer of one image, filled
  with the index of each byte modulo 256.
\<close>

definition cifar_in :: "byte ndarray" where
  "cifar_in = \<lparr>shape = [2, 3072], elems = map of_nat [0..<6144]\<rparr>"

definition stl_in :: bytes where
  "stl_in = map of_nat [0..<27648]"

text \<open>
  An environment for the local-folder loader: four folders of file names, opened images of
  shape \<open>(s, s, 3)\<close> whose first byte is the length of the file name, and a stand-in
  encoder that keeps the first byte of an image. Nothing can be downloaded in it.
\<close>

definition toy_image :: "string \<Rightarrow> nat \<Rightarrow> byte ndarray" where
  "toy_image f s = \<lparr>shape = [s, s, 3], elems = of_nat (length f) # replicate (s * s * 3 - 1) 0\<rparr>"

definition toy_listdir :: "string \<Rightarrow> error + string list" where
  "toy_listdir p =
     (if p = os_path_join TRAIN_DIR ''0'' then Inr [''a.jpg'', ''notes.txt'']
      else if p = os_path_join TRAIN_DIR ''1'' then Inr [''bb.jpg'']
      else if p = os_path_join TEST_DIR ''0'' then Inr []
      else if p = os_path_join TEST_DIR ''1'' then Inr [''ccc.jpg'', ''d.JPG'', ''eeee.jpg'']
      else Inl (FileNotFoundError p))"

definition w_toy :: world where
  "w_toy =
     \<lparr>DATA_DIR = ''data'',
      urlretrieve = (\<lambda>url. Inl (URLError url)),
      local_file = Map.empty,
      tar_members = (\<lambda>b. Inl ReadError),
      gunzip = (\<lambda>b. Inl ReadError),
      loadmat = (\<lambda>b. Inl ReadError),
      listdir = toy_listdir,
      image_open_resize = (\<lambda>f s. Inr (toy_image f s)),
      to_png = (\<lambda>a. Inr (take 1 (elems a)))\<rparr>"

definition svhn_toy :: "string \<rightharpoonup> byte ndarray" where
  "svhn_toy = [''X'' \<mapsto> \<lparr>shape = [1, 1, 1, 2], elems = [7, 8]\<rparr>,
               ''y'' \<mapsto> \<lparr>shape = [2, 1], elems = [10, 3]\<rparr>]"

definition voets_toy :: datas where
  "voets_toy =
     [(''train'', Dataset \<lparr>images = [[70], [71]], labels = [0, 1]\<rparr>),
      (''test'', Dataset \<lparr>images = [[71], [72]], labels = [1, 1]\<rparr>)]"

section \<open>Properties\<close>

subsection \<open>The record writer\<close>

lemma files_writer_open: "files (writer_open p fsys) p = Some (TFRecords [])"
  by (simp add: writer_open_def gfile_write_def)

lemma files_writer_open_other: "q \<noteq> p \<Longrightarrow> files (writer_open p fsys) q = files fsys q"
  by (simp add: writer_open_def gfile_write_def)

lemma build_records_files:
  "files fsys p = Some (TFRecords rs) \<Longrightarrow>
   files (build_records d p xs fsys) p = Some (TFRecords (rs @ map (make_record d) xs))"
proof (induction xs arbitrary: fsys rs)
  case Nil
  then show ?case by simp
next
  case (Cons x xs)
  have "files (writer_write p (make_record d x) fsys) p = Some (TFRecords (rs @ [make_record d x]))"
    using Cons.prems by (simp add: writer_write_def gfile_write_def)
  from Cons.IH [OF this] show ?case by simp
qed

lemma build_records_other:
  "q \<noteq> p \<Longrightarrow> files (build_records d p xs fsys) q = files fsys q"
  by (induction xs arbitrary: fsys)
     (auto simp: writer_write_def gfile_write_def split: option.splits content.splits)

lemma build_records_dirs: "dirs (build_records d p xs fsys) = dirs fsys"
  by (induction xs arbitrary: fsys)
     (auto simp: writer_write_def gfile_write_def split: option.splits content.splits)

lemma save_as_tfrecord_ok:
  assumes "length (images d) = length (labels d)"
  shows "save_as_tfrecord data_dir d filename st =
    (Inr (), st\<lparr>fs := build_records d (tfrecord_path data_dir filename) [0..<length (images d)]
          (writer_open (tfrecord_path data_dir filename) (fs st))\<rparr>)"
  using assms by (simp add: save_as_tfrecord_def Let_def)

lemma save_as_tfrecord_file:
  assumes "length (images d) = length (labels d)"
  shows "files (fs (snd (save_as_tfrecord data_dir d filename st))) (tfrecord_path data_dir filename)
         = Some (TFRecords (map (make_record d) [0..<length (images d)]))"
  using build_records_files [OF files_writer_open, of d "tfrecord_path data_dir filename"]
  by (simp add: save_as_tfrecord_ok [OF assms])

lemma save_as_tfrecord_other:
  "q \<noteq> tfrecord_path data_dir filename \<Longrightarrow>
   files (fs (snd (save_as_tfrecord data_dir d filename st))) q = files (fs st) q"
  by (simp add: save_as_tfrecord_def Let_def build_records_other files_writer_open_other)

text \<open>
  C1: for every split whose images and labels have the same length \<open>N\<close>, \<open>_save_as_tfrecord\<close>
  returns normally and leaves, at the one path \<^verbatim>\<open>os.path.join(DATA_DIR, filename + '.tfrecord')\<close>,
  a container of exactly \<open>N\<close> records in index order: record \<open>i\<close> has the two fields
  \<^verbatim>\<open>image\<close>, holding the bytes \<open>images[i]\<close>, and \<^verbatim>\<open>label\<close>, holding the integer \<open>labels[i]\<close>.
  No other file is touched.
\<close>

theorem save_as_tfrecord_writes_every_pair:
  assumes "length (images d) = length (labels d)"
  shows "\<exists>recs.
     fst (save_as_tfrecord data_dir d filename st) = Inr () \<and>
     files (fs (snd (save_as_tfrecord data_dir d filename st))) (os_path_join data_dir (filename @ ''.tfrecord''))
       = Some (TFRecords recs) \<and>
     length recs = length (images d) \<and>
     (\<forall>i < length (images d).
        (recs ! i) ''image'' = Some (BytesList [images d ! i]) \<and>
        (recs ! i) ''label'' = Some (Int64List [labels d ! i]) \<and>
        dom (recs ! i) = {''image'', ''label''}) \<and>
     (\<forall>q. q \<noteq> os_path_join data_dir (filename @ ''.tfrecord'') \<longrightarrow>
        files (fs (snd (save_as_tfrecord data_dir d filename st))) q = files (fs st) q)"
proof -
  let ?p = "os_path_join data_dir (filename @ ''.tfrecord'')"
  let ?recs = "map (make_record d) [0..<length (images d)]"
  have p: "tfrecord_path data_dir filename = ?p" by (simp add: tfrecord_path_def)
  have 1: "fst (save_as_tfrecord data_dir d filename st) = Inr ()"
    by (simp add: save_as_tfrecord_ok [OF assms])
  have 2: "files (fs (snd (save_as_tfrecord data_dir d filename st))) ?p = Some (TFRecords ?recs)"
    using save_as_tfrecord_file [OF assms, of data_dir filename st] by (simp add: p)
  have 3: "length ?recs = length (images d)" by simp
  have 4: "\<forall>i < length (images d).
        (?recs ! i) ''image'' = Some (BytesList [images d ! i]) \<and>
        (?recs ! i) ''label'' = Some (Int64List [labels d ! i]) \<and>
        dom (?recs ! i) = {''image'', ''label''}"
    by (auto simp: make_record_def bytes_feature_def int64_feature_def)
  have 5: "\<forall>q. q \<noteq> ?p \<longrightarrow> files (fs (snd (save_as_tfrecord data_dir d filename st))) q = files (fs st) q"
    using save_as_tfrecord_other [of _ data_dir filename d st] by (simp add: p)
  from 1 2 3 4 5 show ?thesis by blast
qed

theorem save_as_tfrecord_writes_every_pair_witness:
  "length (images d3) = length (labels d3) \<and>
   (\<exists>recs.
     fst (save_as_tfrecord ''out'' d3 ''toy-train'' st0) = Inr () \<and>
     files (fs (snd (save_as_tfrecord ''out'' d3 ''toy-train'' st0))) ''out/toy-train.tfrecord''
       = Some (TFRecords recs) \<and>
     length recs = 3 \<and>
     (recs ! 2) ''label'' = Some (Int64List [2]) \<and>
     (recs ! 0) ''image'' = Some (BytesList [[1, 2]]))"
proof -
  have h: "length (images d3) = length (labels d3)" by (simp add: d3_def)
  have p: "os_path_join ''out'' (''toy-train'' @ ''.tfrecord'') = ''out/toy-train.tfrecord''"
    by (simp add: os_path_join_def startswith_sep_def endswith_sep_def)
  have l: "length (images d3) = 3" by (simp add: d3_def)
  from save_as_tfrecord_writes_every_pair [OF h, of "''out''" "''toy-train''" st0]
  obtain recs where r:
     "fst (save_as_tfrecord ''out'' d3 ''toy-train'' st0) = Inr () \<and>
     files (fs (snd (save_as_tfrecord ''out'' d3 ''toy-train'' st0))) (os_path_join ''out'' (''toy-train'' @ ''.tfrecord''))
       = Some (TFRecords recs) \<and>
     length recs = length (images d3) \<and>
     (\<forall>i < length (images d3).
        (recs ! i) ''image'' = Some (BytesList [images d3 ! i]) \<and>
        (recs ! i) ''label'' = Some (Int64List [labels d3 ! i]) \<and>
        dom (recs ! i) = {''image'', ''label''}) \<and>
     (\<forall>q. q \<noteq> os_path_join ''out'' (''toy-train'' @ ''.tfrecord'') \<longrightarrow>
        files (fs (snd (save_as_tfrecord ''out'' d3 ''toy-train'' st0))) q = files (fs st0) q)" ..
  from r have r1: "fst (save_as_tfrecord ''out'' d3 ''toy-train'' st0) = Inr ()" by (rule conjunct1)
  from r have r2: "files (fs (snd (save_as_tfrecord ''out'' d3 ''toy-train'' st0))) ''out/toy-train.tfrecord''
       = Some (TFRecords recs)" unfolding p by (elim conjE)
  from r have r3: "length recs = 3" unfolding l by (elim conjE)
  from r have r4: "\<forall>i < 3.
        (recs ! i) ''image'' = Some (BytesList [images d3 ! i]) \<and>
        (recs ! i) ''label'' = Some (Int64List [labels d3 ! i]) \<and>
        dom (recs ! i) = {''image'', ''label''}" unfolding l by (elim conjE)
  from r4 [rule_format, of 2] have "(recs ! 2) ''label'' = Some (Int64List [labels d3 ! 2])" by simp
  then have r5: "(recs ! 2) ''label'' = Some (Int64List [2])" by (simp add: d3_def)
  from r4 [rule_format, of 0] have "(recs ! 0) ''image'' = Some (BytesList [images d3 ! 0])" by simp
  then have r6: "(recs ! 0) ''image'' = Some (BytesList [[1, 2]])" by (simp add: d3_def)
  have ex: "\<exists>recs. fst (save_as_tfrecord ''out'' d3 ''toy-train'' st0) = Inr () \<and>
     files (fs (snd (save_as_tfrecord ''out'' d3 ''toy-train'' st0))) ''out/toy-train.tfrecord''
       = Some (TFRecords recs) \<and>
     length recs = 3 \<and>
     (recs ! 2) ''label'' = Some (Int64List [2]) \<and>
     (recs ! 0) ''image'' = Some (BytesList [[1, 2]])"
    by (intro exI [of _ recs] conjI r1 r2 r3 r5 r6)
  show ?thesis by (intro conjI h ex)
qed

text \<open>
  C8: \<open>_save_as_tfrecord\<close> fails with an assertion error exactly when the number of images
  differs from the number of labels; it has no other failure, and when it fails the state
  is the one it was called in: no file has been opened and no record written.
\<close>

theorem save_as_tfrecord_assertion:
  "(fst (save_as_tfrecord data_dir d filename st) = Inl AssertionError
      \<longleftrightarrow> length (images d) \<noteq> length (labels d)) \<and>
   (\<forall>e. fst (save_as_tfrecord data_dir d filename st) = Inl e \<longrightarrow>
      e = AssertionError \<and> snd (save_as_tfrecord data_dir d filename st) = st)"
  by (simp add: save_as_tfrecord_def Let_def)

theorem save_as_tfrecord_assertion_witness:
  "length (images d_bad) \<noteq> length (labels d_bad) \<and>
   fst (save_as_tfrecord ''out'' d_bad ''toy-train'' st0) = Inl AssertionError \<and>
   snd (save_as_tfrecord ''out'' d_bad ''toy-train'' st0) = st0 \<and>
   files (fs (snd (save_as_tfrecord ''out'' d_bad ''toy-train'' st0))) ''out/toy-train.tfrecord'' = None"
proof -
  have h: "length (images d_bad) \<noteq> length (labels d_bad)" by (simp add: d_bad_def)
  with save_as_tfrecord_assertion [of "''out''" d_bad "''toy-train''" st0]
  have 1: "fst (save_as_tfrecord ''out'' d_bad ''toy-train'' st0) = Inl AssertionError"
    and 2: "snd (save_as_tfrecord ''out'' d_bad ''toy-train'' st0) = st0" by simp_all
  have 3: "files (fs st0) ''out/toy-train.tfrecord'' = None" by (simp add: st0_def)
  from h 1 2 3 show ?thesis by simp
qed

subsection \<open>The installation checker\<close>

lemma is_installed_all:
  "is_installed data_dir fsys name cs \<longleftrightarrow>
   (\<forall>sub \<in> fst ` set cs. gfile_exists fsys (os_path_join data_dir (fmt_tfrecord name sub)))"
  by (induction cs) (auto split: if_splits)

text \<open>
  C6: \<open>_is_installed name checksums\<close> is true if and only if, for every split name \<open>s\<close> that is
  a key of \<open>checksums\<close>, the path \<^verbatim>\<open>os.path.join(DATA_DIR, '<name>-<s>.tfrecord')\<close> exists.
\<close>

theorem is_installed_iff_every_file_exists:
  "is_installed data_dir fsys name cs \<longleftrightarrow>
   (\<forall>sub \<in> fst ` set cs.
      gfile_exists fsys (os_path_join data_dir (name @ ''-'' @ sub @ ''.tfrecord'')))"
  using is_installed_all [of data_dir fsys name cs] by (simp add: fmt_tfrecord_def)

theorem is_installed_iff_every_file_exists_witness:
  "is_installed ''data'' fs_installed ''voets'' [(''train'', None), (''test'', None)] \<and>
   \<not> is_installed ''data'' fs_installed ''voets'' [(''train'', None), (''extra'', None)]"
proof -
  have e: "\<forall>sub \<in> fst ` set [(''train'', None :: string option), (''test'', None)].
      gfile_exists fs_installed (os_path_join ''data'' (''voets'' @ ''-'' @ sub @ ''.tfrecord''))"
    by (simp add: fs_installed_def gfile_exists_def os_path_join_def startswith_sep_def
        endswith_sep_def)
  have n: "\<not> (\<forall>sub \<in> fst ` set [(''train'', None :: string option), (''extra'', None)].
      gfile_exists fs_installed (os_path_join ''data'' (''voets'' @ ''-'' @ sub @ ''.tfrecord'')))"
    by (simp add: fs_installed_def gfile_exists_def os_path_join_def startswith_sep_def
        endswith_sep_def)
  from is_installed_iff_every_file_exists [THEN iffD2, OF e]
  have 1: "is_installed ''data'' fs_installed ''voets'' [(''train'', None), (''test'', None)]" .
  from n is_installed_iff_every_file_exists
         [of "''data''" fs_installed "''voets''" "[(''train'', None), (''extra'', None)]"]
  have 2: "\<not> is_installed ''data'' fs_installed ''voets'' [(''train'', None), (''extra'', None)]"
    by (rule_tac notI) (drule (1) iffD1, erule notE, assumption)
  from 1 2 show ?thesis by (rule conjI)
qed

subsection \<open>Array indexing, reshape and transpose\<close>

lemma ebind_Inr [simp]: "ebind (Inr x) f = f x"
  by (simp add: ebind_def)

lemma ebind_Inl [simp]: "ebind (Inl e) f = Inl e"
  by (simp add: ebind_def)

lemma ebind_eq_Inr: "ebind m f = Inr y \<longleftrightarrow> (\<exists>x. m = Inr x \<and> f x = Inr y)"
  by (cases m) simp_all

lemma offset_strides_less:
  "list_all2 (<) idx sh \<Longrightarrow> offset (strides sh) idx < prod_list sh"
proof (induction idx sh rule: list_all2_induct)
  case Nil
  then show ?case by simp
next
  case (Cons i idx s sh)
  have "i * prod_list sh + offset (strides sh) idx < i * prod_list sh + prod_list sh"
    using Cons.IH by simp
  also have "\<dots> = Suc i * prod_list sh" by simp
  also have "\<dots> \<le> s * prod_list sh"
    using Cons.hyps(1) by (intro mult_le_mono1) simp
  finally show ?case by simp
qed

lemma unravel_offset:
  "list_all2 (<) idx sh \<Longrightarrow> unravel sh (offset (strides sh) idx) = idx"
proof (induction idx sh rule: list_all2_induct)
  case Nil
  then show ?case by simp
next
  case (Cons i idx s sh)
  have r: "offset (strides sh) idx < prod_list sh"
    using Cons.hyps(2) by (rule offset_strides_less)
  then have "(i * prod_list sh + offset (strides sh) idx) div prod_list sh = i"
    and "(i * prod_list sh + offset (strides sh) idx) mod prod_list sh = offset (strides sh) idx"
    by simp_all
  with Cons.IH show ?case by simp
qed

lemma item_np_transpose:
  assumes "np_transpose a axes = Inr b"
    and "list_all2 (<) idx (shape b)"
  shows "item b idx = elems a ! offset (map (\<lambda>k. strides (shape a) ! k) axes) idx"
proof -
  let ?sh = "map (\<lambda>k. shape a ! k) axes"
  let ?st = "map (\<lambda>k. strides (shape a) ! k) axes"
  from assms(1) have b: "b = \<lparr>shape = ?sh,
      elems = map (\<lambda>k. elems a ! offset ?st (unravel ?sh k)) [0..<prod_list ?sh]\<rparr>"
    by (simp add: np_transpose_def Let_def split: if_splits)
  then have sh: "shape b = ?sh" by simp
  from assms(2) have lt: "offset (strides ?sh) idx < prod_list ?sh"
    unfolding sh by (rule offset_strides_less)
  from assms(2) have un: "unravel ?sh (offset (strides ?sh) idx) = idx"
    unfolding sh by (rule unravel_offset)
  have "item b idx = elems b ! offset (strides ?sh) idx"
    by (simp add: item_def sh)
  also have "\<dots> = elems a ! offset ?st (unravel ?sh (offset (strides ?sh) idx))"
    using lt by (subst b) simp
  finally show ?thesis by (simp add: un)
qed

lemma cifar_unflatten_Inr:
  assumes "shape imgs = [N, 3072]" and "length (elems imgs) = N * 3072"
  shows "cifar_unflatten imgs =
     np_transpose \<lparr>shape = [N, 3, 32, 32], elems = elems imgs\<rparr> [0, 2, 3, 1]"
  using assms by (simp add: cifar_unflatten_def shape0_def np_reshape_def)

lemma np_transpose_shape:
  "np_transpose a axes = Inr b \<Longrightarrow> shape b = map (\<lambda>k. shape a ! k) axes"
  by (auto simp: np_transpose_def Let_def split: if_splits)

lemma np_transpose_valid:
  "length axes = length (shape a) \<Longrightarrow> distinct axes \<Longrightarrow> list_all (\<lambda>k. k < length (shape a)) axes
   \<Longrightarrow> \<exists>b. np_transpose a axes = Inr b"
  by (simp add: np_transpose_def Let_def)

lemma cifar_unflatten_item:
  assumes "shape imgs = [N, 3072]" and "length (elems imgs) = N * 3072"
  shows "\<exists>out. cifar_unflatten imgs = Inr out \<and> shape out = [N, 32, 32, 3] \<and>
     (\<forall>n h w c. n < N \<and> h < 32 \<and> w < 32 \<and> c < 3 \<longrightarrow>
        item out [n, h, w, c] = item imgs [n, c * 32 * 32 + h * 32 + w])"
proof -
  let ?r = "\<lparr>shape = [N, 3, 32, 32], elems = elems imgs\<rparr>"
  have "\<exists>b. np_transpose ?r [0, 2, 3, 1] = Inr b"
    by (rule np_transpose_valid) simp_all
  then obtain out where out: "np_transpose ?r [0, 2, 3, 1] = Inr out" ..
  have sh: "shape out = [N, 32, 32, 3]"
    using np_transpose_shape [OF out] by simp
  have "item out [n, h, w, c] = item imgs [n, c * 32 * 32 + h * 32 + w]"
    if "n < N \<and> h < 32 \<and> w < 32 \<and> c < 3" for n h w c
  proof -
    from that have "list_all2 (<) [n, h, w, c] (shape out)" by (simp add: sh)
    from item_np_transpose [OF out this]
    show ?thesis by (simp add: item_def assms(1) algebra_simps)
  qed
  with out sh show ?thesis
    by (simp add: cifar_unflatten_Inr [OF assms])
qed

lemma stl10_unflatten_Inr:
  assumes "length (elems buf) mod 27648 = 0"
  shows "stl10_unflatten buf =
     np_transpose \<lparr>shape = [length (elems buf) div 27648, 3, 96, 96], elems = elems buf\<rparr> [0, 3, 2, 1]"
  using assms by (simp add: stl10_unflatten_def np_reshape_def)

lemma stl10_unflatten_item:
  assumes "length (elems buf) mod 27648 = 0"
  shows "\<exists>out. stl10_unflatten buf = Inr out \<and>
     shape out = [length (elems buf) div 27648, 96, 96, 3] \<and>
     (\<forall>n h w c. n < length (elems buf) div 27648 \<and> h < 96 \<and> w < 96 \<and> c < 3 \<longrightarrow>
        item out [n, h, w, c] = elems buf ! (((n * 3 + c) * 96 + w) * 96 + h))"
proof -
  let ?N = "length (elems buf) div 27648"
  let ?r = "\<lparr>shape = [?N, 3, 96, 96], elems = elems buf\<rparr>"
  have "\<exists>b. np_transpose ?r [0, 3, 2, 1] = Inr b"
    by (rule np_transpose_valid) simp_all
  then obtain out where out: "np_transpose ?r [0, 3, 2, 1] = Inr out" ..
  have sh: "shape out = [?N, 96, 96, 3]"
    using np_transpose_shape [OF out] by simp
  have "item out [n, h, w, c] = elems buf ! (((n * 3 + c) * 96 + w) * 96 + h)"
    if "n < ?N \<and> h < 96 \<and> w < 96 \<and> c < 3" for n h w c
  proof -
    from that have "list_all2 (<) [n, h, w, c] (shape out)" by (simp add: sh)
    from item_np_transpose [OF out this]
    show ?thesis by (simp add: algebra_simps)
  qed
  with out sh show ?thesis
    by (simp add: stl10_unflatten_Inr [OF assms])
qed

text \<open>
  C4: the two \<open>unflatten\<close> functions return, and realize the native layouts. For a \<^verbatim>\<open>uint8\<close>
  array of shape \<open>(N, 3*32*32)\<close> the CIFAR one gives shape \<open>(N, 32, 32, 3)\<close> with
  \<open>output[n,h,w,c] = input[n, c*32*32 + h*32 + w]\<close>; for a flat buffer holding a whole number of
  \<open>3*96*96\<close>-byte images the STL one gives shape \<open>(N, 96, 96, 3)\<close> with
  \<open>output[n,h,w,c] = input[((n*3 + c)*96 + w)*96 + h]\<close>; in both for all indices within the
  output shape.
\<close>

theorem unflatten_layouts:
  "(shape imgs = [N, 3 * 32 * 32] \<and> length (elems imgs) = N * (3 * 32 * 32) \<longrightarrow>
     (\<exists>out. cifar_unflatten imgs = Inr out \<and> shape out = [N, 32, 32, 3] \<and>
        (\<forall>n h w c. n < N \<and> h < 32 \<and> w < 32 \<and> c < 3 \<longrightarrow>
           item out [n, h, w, c] = item imgs [n, c * 32 * 32 + h * 32 + w]))) \<and>
   (length buf mod (3 * 96 * 96) = 0 \<longrightarrow>
     (\<exists>out. stl10_unflatten (np_frombuffer buf) = Inr out \<and>
        shape out = [length buf div (3 * 96 * 96), 96, 96, 3] \<and>
        (\<forall>n h w c. n < length buf div (3 * 96 * 96) \<and> h < 96 \<and> w < 96 \<and> c < 3 \<longrightarrow>
           item out [n, h, w, c] = buf ! (((n * 3 + c) * 96 + w) * 96 + h))))"
proof (intro conjI impI)
  assume "shape imgs = [N, 3 * 32 * 32] \<and> length (elems imgs) = N * (3 * 32 * 32)"
  then have "shape imgs = [N, 3072]" "length (elems imgs) = N * 3072" by simp_all
  then show "\<exists>out. cifar_unflatten imgs = Inr out \<and> shape out = [N, 32, 32, 3] \<and>
        (\<forall>n h w c. n < N \<and> h < 32 \<and> w < 32 \<and> c < 3 \<longrightarrow>
           item out [n, h, w, c] = item imgs [n, c * 32 * 32 + h * 32 + w])"
    by (rule cifar_unflatten_item)
next
  assume "length buf mod (3 * 96 * 96) = 0"
  then have "length (elems (np_frombuffer buf)) mod 27648 = 0"
    by (simp add: np_frombuffer_def)
  from stl10_unflatten_item [OF this]
  show "\<exists>out. stl10_unflatten (np_frombuffer buf) = Inr out \<and>
        shape out = [length buf div (3 * 96 * 96), 96, 96, 3] \<and>
        (\<forall>n h w c. n < length buf div (3 * 96 * 96) \<and> h < 96 \<and> w < 96 \<and> c < 3 \<longrightarrow>
           item out [n, h, w, c] = buf ! (((n * 3 + c) * 96 + w) * 96 + h))"
    by (simp add: np_frombuffer_def)
qed

theorem unflatten_layouts_witness:
  "(shape cifar_in = [2, 3 * 32 * 32] \<and> length (elems cifar_in) = 2 * (3 * 32 * 32)) \<and>
   (\<exists>out. cifar_unflatten cifar_in = Inr out \<and> shape out = [2, 32, 32, 3] \<and>
      item out [1, 2, 3, 1] = item cifar_in [1, 1 * 32 * 32 + 2 * 32 + 3] \<and>
      item out [1, 2, 3, 1] = 67) \<and>
   length stl_in mod (3 * 96 * 96) = 0 \<and>
   (\<exists>out. stl10_unflatten (np_frombuffer stl_in) = Inr out \<and> shape out = [1, 96, 96, 3] \<and>
      item out [0, 2, 3, 1] = stl_in ! (((0 * 3 + 1) * 96 + 3) * 96 + 2) \<and>
      item out [0, 2, 3, 1] = 34)"
proof -
  have hc: "shape cifar_in = [2, 3 * 32 * 32] \<and> length (elems cifar_in) = 2 * (3 * 32 * 32)"
    by (simp add: cifar_in_def)
  have hs: "length stl_in mod (3 * 96 * 96) = 0"
    by (simp add: stl_in_def)
  have ls: "length stl_in div (3 * 96 * 96) = 1"
    by (simp add: stl_in_def)
  note t = unflatten_layouts [of cifar_in 2 stl_in]
  from t [THEN conjunct1, rule_format, OF hc]
  obtain oc where oc: "cifar_unflatten cifar_in = Inr oc \<and> shape oc = [2, 32, 32, 3] \<and>
        (\<forall>n h w c. n < 2 \<and> h < 32 \<and> w < 32 \<and> c < 3 \<longrightarrow>
           item oc [n, h, w, c] = item cifar_in [n, c * 32 * 32 + h * 32 + w])" ..
  from oc have c1: "cifar_unflatten cifar_in = Inr oc" by (rule conjunct1)
  from oc have c2: "shape oc = [2, 32, 32, 3]" by (elim conjE)
  from oc have c3: "\<forall>n h w c. n < 2 \<and> h < 32 \<and> w < 32 \<and> c < 3 \<longrightarrow>
           item oc [n, h, w, c] = item cifar_in [n, c * 32 * 32 + h * 32 + w]" by (elim conjE)
  from c3 [rule_format, of 1 2 3 1]
  have c4: "item oc [1, 2, 3, 1] = item cifar_in [1, 1 * 32 * 32 + 2 * 32 + 3]" by simp
  have "item cifar_in [1, 1 * 32 * 32 + 2 * 32 + 3] = 67"
    by (simp add: item_def cifar_in_def)
  with c4 have c5: "item oc [1, 2, 3, 1] = 67" by simp
  from t [THEN conjunct2, rule_format, OF hs]
  obtain os where os: "stl10_unflatten (np_frombuffer stl_in) = Inr os \<and>
        shape os = [length stl_in div (3 * 96 * 96), 96, 96, 3] \<and>
        (\<forall>n h w c. n < length stl_in div (3 * 96 * 96) \<and> h < 96 \<and> w < 96 \<and> c < 3 \<longrightarrow>
           item os [n, h, w, c] = stl_in ! (((n * 3 + c) * 96 + w) * 96 + h))" ..
  from os have s1: "stl10_unflatten (np_frombuffer stl_in) = Inr os" by (rule conjunct1)
  from os have s2: "shape os = [1, 96, 96, 3]" unfolding ls by (elim conjE)
  from os have s3: "\<forall>n h w c. n < 1 \<and> h < 96 \<and> w < 96 \<and> c < 3 \<longrightarrow>
           item os [n, h, w, c] = stl_in ! (((n * 3 + c) * 96 + w) * 96 + h)"
    unfolding ls by (elim conjE)
  from s3 [rule_format, of 0 2 3 1]
  have s4: "item os [0, 2, 3, 1] = stl_in ! (((0 * 3 + 1) * 96 + 3) * 96 + 2)" by simp
  have "stl_in ! (((0 * 3 + 1) * 96 + 3) * 96 + 2) = 34"
    by (simp add: stl_in_def)
  with s4 have s5: "item os [0, 2, 3, 1] = 34" by simp
  have exc: "\<exists>out. cifar_unflatten cifar_in = Inr out \<and> shape out = [2, 32, 32, 3] \<and>
      item out [1, 2, 3, 1] = item cifar_in [1, 1 * 32 * 32 + 2 * 32 + 3] \<and>
      item out [1, 2, 3, 1] = 67"
    by (intro exI [of _ oc] conjI c1 c2 c4 c5)
  have exs: "\<exists>out. stl10_unflatten (np_frombuffer stl_in) = Inr out \<and> shape out = [1, 96, 96, 3] \<and>
      item out [0, 2, 3, 1] = stl_in ! (((0 * 3 + 1) * 96 + 3) * 96 + 2) \<and>
      item out [0, 2, 3, 1] = 34"
    by (intro exI [of _ os] conjI s1 s2 s4 s5)
  show ?thesis by (intro conjI hc [THEN conjunct1] hc [THEN conjunct2] hs exc exs)
qed

lemma svhn_labels_Inr: "svhn_labels y = Inr (map (\<lambda>v. v mod 10) (elems y))"
  by (simp add: svhn_labels_def np_reshape_def)

text \<open>
  C5: in a split returned by the SVHN loader the labels are the entries of \<^verbatim>\<open>y\<close> in order,
  normalized by \<^verbatim>\<open>labels %= 10\<close>: a raw label 10 becomes 0, a raw label from 1 to 9 is
  unchanged.
\<close>

theorem svhn_label_remap:
  assumes "svhn_dataset w data_dict = Inr d" and "data_dict ''y'' = Some y"
    and "i < length (elems y)"
  shows "length (labels d) = length (elems y) \<and>
     (elems y ! i = 10 \<longrightarrow> labels d ! i = 0) \<and>
     (1 \<le> elems y ! i \<and> elems y ! i \<le> 9 \<longrightarrow> labels d ! i = uint (elems y ! i))"
proof -
  from assms(1,2) have l: "labels d = label_values (map (\<lambda>v. v mod 10) (elems y))"
    by (auto simp: svhn_dataset_def ebind_eq_Inr lookup_def svhn_labels_Inr)
  have "v mod 10 = v" if "v \<le> 9" for v :: byte
    using that by (intro mod_word_less) (simp add: word_less_def word_le_def)
  with assms(3) show ?thesis
    by (simp add: l label_values_def)
qed

lemma upt_2: "[0..<2] = [0, 1]"
  by (simp add: upt_rec)

lemma svhn_toy_dataset:
  "svhn_dataset w_toy svhn_toy = Inr \<lparr>images = [[7], [8]], labels = [0, 3]\<rparr>"
  by (simp add: svhn_dataset_def svhn_toy_def lookup_def np_transpose_def encode_png_def
      shape0_def subarray_def w_toy_def svhn_labels_Inr label_values_def upt_2)

theorem svhn_label_remap_witness:
  "svhn_dataset w_toy svhn_toy = Inr \<lparr>images = [[7], [8]], labels = [0, 3]\<rparr> \<and>
   svhn_toy ''y'' = Some \<lparr>shape = [2, 1], elems = [10, 3]\<rparr> \<and>
   labels \<lparr>images = [[7], [8]], labels = [0, 3]\<rparr> ! 0 = 0 \<and>
   labels \<lparr>images = [[7], [8]], labels = [0, 3]\<rparr> ! 1 = uint (3 :: byte)"
proof -
  have y: "svhn_toy ''y'' = Some \<lparr>shape = [2, 1], elems = [10, 3]\<rparr>"
    by (simp add: svhn_toy_def)
  from svhn_label_remap [OF svhn_toy_dataset y, of 0]
  have 0: "labels \<lparr>images = [[7], [8]], labels = [0, 3]\<rparr> ! 0 = 0" by simp
  from svhn_label_remap [OF svhn_toy_dataset y, of 1]
  have 1: "labels \<lparr>images = [[7], [8]], labels = [0, 3]\<rparr> ! 1 = uint (3 :: byte)" by simp
  show ?thesis by (intro conjI svhn_toy_dataset y 0 1)
qed

subsection \<open>The image encoder on stacked images\<close>

lemma emap_Inr_iff: "emap f xs = Inr ys \<longleftrightarrow> list_all2 (\<lambda>x y. f x = Inr y) xs ys"
proof (induction xs arbitrary: ys)
  case Nil
  then show ?case by auto
next
  case (Cons x xs)
  show ?case
  proof (cases "f x")
    case (Inl e)
    then show ?thesis by (auto simp: list_all2_Cons1)
  next
    case (Inr y)
    then show ?thesis
      using Cons.IH by (cases "emap f xs") (auto simp: list_all2_Cons1)
  qed
qed

lemma emap_Inr_length: "emap f xs = Inr ys \<Longrightarrow> length ys = length xs"
  by (simp add: emap_Inr_iff list_all2_lengthD)

lemma emap_map: "emap f (map g xs) = emap (\<lambda>x. f (g x)) xs"
  by (induction xs) (simp_all split: sum.splits)

lemma emap_cong_set: "(\<And>x. x \<in> set xs \<Longrightarrow> f x = g x) \<Longrightarrow> emap f xs = emap g xs"
  by (induction xs) (simp_all split: sum.splits)

lemma encode_png_length:
  "encode_png w a = Inr pngs \<Longrightarrow> shape0 a = Inr (length pngs)"
  by (auto simp: encode_png_def ebind_eq_Inr dest: emap_Inr_length)

lemma take_drop_concat_nth:
  "\<forall>x \<in> set xss. length x = m \<Longrightarrow> i < length xss \<Longrightarrow>
   take m (drop (i * m) (concat xss)) = xss ! i"
proof (induction xss arbitrary: i)
  case Nil
  then show ?case by simp
next
  case (Cons x xss)
  show ?case
  proof (cases i)
    case 0
    with Cons.prems show ?thesis by simp
  next
    case (Suc j)
    with Cons.prems have "take m (drop (j * m) (concat xss)) = xss ! j"
      by (intro Cons.IH) simp_all
    with Suc Cons.prems show ?thesis by simp
  qed
qed

lemma np_array_shape0: "np_array xs = Inr a \<Longrightarrow> shape0 a = Inr (length xs)"
  by (auto simp: np_array_def shape0_def split: list.splits if_splits)

lemma subarray_np_array:
  assumes "np_array xs = Inr a" and "\<forall>x \<in> set xs. well_formed x" and "i < length xs"
  shows "subarray a i = xs ! i"
proof (cases xs)
  case Nil
  with assms(3) show ?thesis by simp
next
  case (Cons x0 rest)
  with assms(1) have same: "\<forall>b \<in> set xs. shape b = shape x0"
    and a: "a = \<lparr>shape = length xs # shape x0, elems = concat (map elems xs)\<rparr>"
    by (auto simp: np_array_def list_ex_iff split: if_splits)
  let ?m = "prod_list (shape x0)"
  from same assms(2) have len: "\<forall>e \<in> set (map elems xs). length e = ?m"
    by (auto simp: well_formed_def)
  from assms(3) have "take ?m (drop (i * ?m) (concat (map elems xs))) = map elems xs ! i"
    by (intro take_drop_concat_nth [OF len]) simp
  with assms(3) have el: "take ?m (drop (i * ?m) (concat (map elems xs))) = elems (xs ! i)"
    by simp
  from same assms(3) have "shape (xs ! i) = shape x0" by simp
  with el show ?thesis by (simp add: a subarray_def)
qed

lemma encode_png_np_array:
  assumes "np_array xs = Inr a" and "\<forall>x \<in> set xs. well_formed x"
  shows "encode_png w a = emap (to_png w) xs"
proof -
  have "encode_png w a = emap (\<lambda>i. to_png w (subarray a i)) [0..<length xs]"
    by (simp add: encode_png_def np_array_shape0 [OF assms(1)])
  also have "\<dots> = emap (\<lambda>i. to_png w (xs ! i)) [0..<length xs]"
    by (rule emap_cong_set) (simp add: subarray_np_array [OF assms])
  also have "\<dots> = emap (to_png w) (map (\<lambda>i. xs ! i) [0..<length xs])"
    by (simp add: emap_map)
  also have "\<dots> = emap (to_png w) xs"
    by (simp add: map_nth)
  finally show ?thesis .
qed

lemma open_images_length:
  assumes "open_images w fnames = Inr a"
  shows "shape0 a = Inr (length fnames)"
proof -
  from assms obtain xs where xs: "emap (\<lambda>f. image_open_resize w f IMG_SIZE) fnames = Inr xs"
    and a: "np_array xs = Inr a"
    by (auto simp: open_images_def ebind_eq_Inr)
  from np_array_shape0 [OF a] emap_Inr_length [OF xs] show ?thesis by simp
qed

lemma open_images_encode:
  assumes "open_images w fnames = Inr a"
    and "\<forall>f b. image_open_resize w f IMG_SIZE = Inr b \<longrightarrow> well_formed b"
  shows "encode_png w a = Inr pngs \<longleftrightarrow>
     list_all2 (\<lambda>f png. \<exists>b. image_open_resize w f IMG_SIZE = Inr b \<and> to_png w b = Inr png) fnames pngs"
proof -
  from assms(1) obtain xs where xs: "emap (\<lambda>f. image_open_resize w f IMG_SIZE) fnames = Inr xs"
    and a: "np_array xs = Inr a"
    by (auto simp: open_images_def ebind_eq_Inr)
  from xs have l: "list_all2 (\<lambda>f b. image_open_resize w f IMG_SIZE = Inr b) fnames xs"
    by (simp add: emap_Inr_iff)
  have "\<forall>x \<in> set xs. well_formed x"
  proof
    fix x assume "x \<in> set xs"
    then obtain i where "i < length xs" "xs ! i = x" by (auto simp: in_set_conv_nth)
    with l have "image_open_resize w (fnames ! i) IMG_SIZE = Inr x"
      by (auto simp: list_all2_conv_all_nth)
    with assms(2) show "well_formed x" by blast
  qed
  from encode_png_np_array [OF a this]
  have "encode_png w a = Inr pngs \<longleftrightarrow> list_all2 (\<lambda>b png. to_png w b = Inr png) xs pngs"
    by (simp add: emap_Inr_iff)
  also have "\<dots> \<longleftrightarrow>
     list_all2 (\<lambda>f png. \<exists>b. image_open_resize w f IMG_SIZE = Inr b \<and> to_png w b = Inr png) fnames pngs"
    using l by (auto simp: list_all2_conv_all_nth)
  finally show ?thesis .
qed

subsection \<open>The local-folder loader\<close>

lemma class_imgs_Inr:
  "class_imgs w dir cls = Inr fnames \<longleftrightarrow>
   (\<exists>names. listdir w (os_path_join dir cls) = Inr names \<and>
      fnames = map (os_path_join3 dir cls) (filter fnmatch_jpg names))"
  by (auto simp: class_imgs_def ebind_eq_Inr)

lemma sorted_voets_labels: "sorted (voets_labels k0 k1)"
  by (simp add: voets_labels_def sorted_append)

lemma load_voets_Inr:
  assumes "load_voets w = Inr ds"
  obtains tr0 tr1 tri te0 te1 tei trp tep where
    "class_imgs w TRAIN_DIR ''0'' = Inr tr0" "class_imgs w TRAIN_DIR ''1'' = Inr tr1"
    "open_images w (tr0 @ tr1) = Inr tri"
    "class_imgs w TEST_DIR ''0'' = Inr te0" "class_imgs w TEST_DIR ''1'' = Inr te1"
    "open_images w (te0 @ te1) = Inr tei"
    "encode_png w tri = Inr trp" "encode_png w tei = Inr tep"
    "ds = [(''train'', Dataset \<lparr>images = trp, labels = voets_labels (length tr0) (length tr1)\<rparr>),
           (''test'', Dataset \<lparr>images = tep, labels = voets_labels (length te0) (length te1)\<rparr>)]"
  by (insert assms, unfold load_voets_def ebind_eq_Inr, elim exE conjE, rule that)
     (assumption+, simp)

lemma voets_split_counts:
  assumes "open_images w (f0 @ f1) = Inr a" and "encode_png w a = Inr pngs"
  shows "length pngs = length (voets_labels (length f0) (length f1))"
proof -
  from open_images_length [OF assms(1)] encode_png_length [OF assms(2)]
  show ?thesis by (simp add: voets_labels_def)
qed

lemma load_voets_counts:
  assumes "load_voets w = Inr ds"
  shows "\<exists>dtr dte. ds = [(''train'', Dataset dtr), (''test'', Dataset dte)] \<and>
     length (images dtr) = length (labels dtr) \<and> length (images dte) = length (labels dte)"
proof -
  from assms obtain tr0 tr1 tri te0 te1 tei trp tep where
    o: "open_images w (tr0 @ tr1) = Inr tri" "open_images w (te0 @ te1) = Inr tei"
       "encode_png w tri = Inr trp" "encode_png w tei = Inr tep"
    and ds: "ds = [(''train'', Dataset \<lparr>images = trp, labels = voets_labels (length tr0) (length tr1)\<rparr>),
           (''test'', Dataset \<lparr>images = tep, labels = voets_labels (length te0) (length te1)\<rparr>)]"
    by (rule load_voets_Inr)
  from voets_split_counts [OF o(1) o(3)] voets_split_counts [OF o(2) o(4)] ds
  show ?thesis by simp
qed

text \<open>
  C10: when the local-folder loader returns, it returns the splits \<^verbatim>\<open>train\<close> and \<^verbatim>\<open>test\<close>, and
  in each the labels are \<open>k0\<close> zeros followed by \<open>k1\<close> ones, where \<open>k0\<close> and \<open>k1\<close> count the
  \<^verbatim>\<open>*.jpg\<close> names listed in the split's folders \<^verbatim>\<open>0\<close> and \<^verbatim>\<open>1\<close>; the images are the encoded
  images of the \<^verbatim>\<open>*.jpg\<close> files of folder \<^verbatim>\<open>0\<close> in listing order, then those of folder \<^verbatim>\<open>1\<close>; so
  the labels are non-decreasing and as many as the images. (The opened images are arrays
  with as many elements as their shape says, as every numpy array is.)
\<close>

theorem load_voets_layout:
  assumes "load_voets w = Inr ds"
    and "\<forall>f b. image_open_resize w f IMG_SIZE = Inr b \<longrightarrow> well_formed b"
  shows "\<exists>tr0 tr1 te0 te1 dtr dte.
     listdir w (os_path_join TRAIN_DIR ''0'') = Inr tr0 \<and>
     listdir w (os_path_join TRAIN_DIR ''1'') = Inr tr1 \<and>
     listdir w (os_path_join TEST_DIR ''0'') = Inr te0 \<and>
     listdir w (os_path_join TEST_DIR ''1'') = Inr te1 \<and>
     ds = [(''train'', Dataset dtr), (''test'', Dataset dte)] \<and>
     labels dtr = replicate (length (filter fnmatch_jpg tr0)) 0 @
                  replicate (length (filter fnmatch_jpg tr1)) 1 \<and>
     list_all2 (\<lambda>f png. \<exists>b. image_open_resize w f IMG_SIZE = Inr b \<and> to_png w b = Inr png)
       (map (os_path_join3 TRAIN_DIR ''0'') (filter fnmatch_jpg tr0) @
        map (os_path_join3 TRAIN_DIR ''1'') (filter fnmatch_jpg tr1))
       (images dtr) \<and>
     sorted (labels dtr) \<and> length (labels dtr) = length (images dtr) \<and>
     labels dte = replicate (length (filter fnmatch_jpg te0)) 0 @
                  replicate (length (filter fnmatch_jpg te1)) 1 \<and>
     list_all2 (\<lambda>f png. \<exists>b. image_open_resize w f IMG_SIZE = Inr b \<and> to_png w b = Inr png)
       (map (os_path_join3 TEST_DIR ''0'') (filter fnmatch_jpg te0) @
        map (os_path_join3 TEST_DIR ''1'') (filter fnmatch_jpg te1))
       (images dte) \<and>
     sorted (labels dte) \<and> length (labels dte) = length (images dte)"
proof -
  from assms(1) obtain tr0 tr1 tri te0 te1 tei trp tep where
    c: "class_imgs w TRAIN_DIR ''0'' = Inr tr0" "class_imgs w TRAIN_DIR ''1'' = Inr tr1"
       "class_imgs w TEST_DIR ''0'' = Inr te0" "class_imgs w TEST_DIR ''1'' = Inr te1"
    and o: "open_images w (tr0 @ tr1) = Inr tri" "open_images w (te0 @ te1) = Inr tei"
       "encode_png w tri = Inr trp" "encode_png w tei = Inr tep"
    and ds: "ds = [(''train'', Dataset \<lparr>images = trp, labels = voets_labels (length tr0) (length tr1)\<rparr>),
           (''test'', Dataset \<lparr>images = tep, labels = voets_labels (length te0) (length te1)\<rparr>)]"
    by (rule load_voets_Inr)
  from c obtain n0 n1 m0 m1 where
    n: "listdir w (os_path_join TRAIN_DIR ''0'') = Inr n0"
       "listdir w (os_path_join TRAIN_DIR ''1'') = Inr n1"
       "listdir w (os_path_join TEST_DIR ''0'') = Inr m0"
       "listdir w (os_path_join TEST_DIR ''1'') = Inr m1"
    and f: "tr0 = map (os_path_join3 TRAIN_DIR ''0'') (filter fnmatch_jpg n0)"
       "tr1 = map (os_path_join3 TRAIN_DIR ''1'') (filter fnmatch_jpg n1)"
       "te0 = map (os_path_join3 TEST_DIR ''0'') (filter fnmatch_jpg m0)"
       "te1 = map (os_path_join3 TEST_DIR ''1'') (filter fnmatch_jpg m1)"
    unfolding class_imgs_Inr by blast
  let ?dtr = "\<lparr>images = trp, labels = voets_labels (length tr0) (length tr1)\<rparr>"
  let ?dte = "\<lparr>images = tep, labels = voets_labels (length te0) (length te1)\<rparr>"
  have l1: "labels ?dtr = replicate (length (filter fnmatch_jpg n0)) 0 @
                  replicate (length (filter fnmatch_jpg n1)) 1"
    by (simp add: voets_labels_def f)
  have l2: "labels ?dte = replicate (length (filter fnmatch_jpg m0)) 0 @
                  replicate (length (filter fnmatch_jpg m1)) 1"
    by (simp add: voets_labels_def f)
  have i1: "list_all2 (\<lambda>f png. \<exists>b. image_open_resize w f IMG_SIZE = Inr b \<and> to_png w b = Inr png)
       (map (os_path_join3 TRAIN_DIR ''0'') (filter fnmatch_jpg n0) @
        map (os_path_join3 TRAIN_DIR ''1'') (filter fnmatch_jpg n1)) (images ?dtr)"
    using open_images_encode [OF o(1) assms(2), of trp] o(3) by (simp add: f)
  have i2: "list_all2 (\<lambda>f png. \<exists>b. image_open_resize w f IMG_SIZE = Inr b \<and> to_png w b = Inr png)
       (map (os_path_join3 TEST_DIR ''0'') (filter fnmatch_jpg m0) @
        map (os_path_join3 TEST_DIR ''1'') (filter fnmatch_jpg m1)) (images ?dte)"
    using open_images_encode [OF o(2) assms(2), of tep] o(4) by (simp add: f)
  have s1: "sorted (labels ?dtr)" and s2: "sorted (labels ?dte)"
    by (simp_all add: sorted_voets_labels)
  have c1: "length (labels ?dtr) = length (images ?dtr)"
    using voets_split_counts [OF o(1) o(3)] by simp
  have c2: "length (labels ?dte) = length (images ?dte)"
    using voets_split_counts [OF o(2) o(4)] by simp
  show ?thesis
    by (intro exI [of _ n0] exI [of _ n1] exI [of _ m0] exI [of _ m1] exI [of _ ?dtr]
        exI [of _ ?dte] conjI n ds l1 l2 i1 i2 s1 s2 c1 c2)
qed

lemma TRAIN_DIR_0: "os_path_join TRAIN_DIR ''0'' = ''/Users/jmarrietar/Dropbox/11_Semestre/Maestria/code/data/train/0''"
  by (simp add: TRAIN_DIR_def DIR_def os_path_join_def startswith_sep_def endswith_sep_def)

lemma toy_dirs:
  "toy_listdir (os_path_join TRAIN_DIR ''0'') = Inr [''a.jpg'', ''notes.txt'']"
  "toy_listdir (os_path_join TRAIN_DIR ''1'') = Inr [''bb.jpg'']"
  "toy_listdir (os_path_join TEST_DIR ''0'') = Inr []"
  "toy_listdir (os_path_join TEST_DIR ''1'') = Inr [''ccc.jpg'', ''d.JPG'', ''eeee.jpg'']"
  by (simp_all add: toy_listdir_def TRAIN_DIR_def TEST_DIR_def DIR_def os_path_join_def
      startswith_sep_def endswith_sep_def)

lemma toy_well_formed: "image_open_resize w_toy f IMG_SIZE = Inr b \<Longrightarrow> well_formed b"
  by (auto simp: w_toy_def toy_image_def well_formed_def IMG_SIZE_def)

lemma toy_class_imgs:
  "class_imgs w_toy TRAIN_DIR ''0'' = Inr [os_path_join3 TRAIN_DIR ''0'' ''a.jpg'']"
  "class_imgs w_toy TRAIN_DIR ''1'' = Inr [os_path_join3 TRAIN_DIR ''1'' ''bb.jpg'']"
  "class_imgs w_toy TEST_DIR ''0'' = Inr []"
  "class_imgs w_toy TEST_DIR ''1'' =
     Inr [os_path_join3 TEST_DIR ''1'' ''ccc.jpg'', os_path_join3 TEST_DIR ''1'' ''eeee.jpg'']"
  by (simp_all add: class_imgs_def w_toy_def toy_dirs fnmatch_jpg_def)

lemma toy_lengths:
  "length (os_path_join3 TRAIN_DIR ''0'' ''a.jpg'') = 70"
  "length (os_path_join3 TRAIN_DIR ''1'' ''bb.jpg'') = 71"
  "length (os_path_join3 TEST_DIR ''1'' ''ccc.jpg'') = 71"
  "length (os_path_join3 TEST_DIR ''1'' ''eeee.jpg'') = 72"
  by (simp_all add: os_path_join3_def TRAIN_DIR_def TEST_DIR_def DIR_def os_path_join_def
      startswith_sep_def endswith_sep_def)

lemma toy_open_encode:
  obtains a where "open_images w_toy fnames = Inr a"
    and "encode_png w_toy a = Inr (map (\<lambda>f. [of_nat (length f)]) fnames)"
proof -
  let ?xs = "map (\<lambda>f. toy_image f IMG_SIZE) fnames"
  have e: "emap (\<lambda>f. image_open_resize w_toy f IMG_SIZE) fnames = Inr ?xs"
    by (simp add: emap_Inr_iff list_all2_conv_all_nth w_toy_def)
  have "\<exists>a. np_array ?xs = Inr a"
    by (cases fnames) (simp_all add: np_array_def toy_image_def list_ex_iff)
  then obtain a where a: "np_array ?xs = Inr a" ..
  have wf: "\<forall>x \<in> set ?xs. well_formed x"
    by (auto simp: toy_image_def well_formed_def IMG_SIZE_def)
  have "encode_png w_toy a = emap (to_png w_toy) ?xs"
    by (rule encode_png_np_array [OF a wf])
  also have "\<dots> = Inr (map (\<lambda>f. [of_nat (length f)]) fnames)"
    by (simp add: emap_Inr_iff list_all2_conv_all_nth w_toy_def toy_image_def)
  finally have "encode_png w_toy a = Inr (map (\<lambda>f. [of_nat (length f)]) fnames)" .
  moreover have "open_images w_toy fnames = Inr a" by (simp add: open_images_def e a)
  ultimately show ?thesis using that by blast
qed

lemma load_voets_toy: "load_voets w_toy = Inr voets_toy"
proof -
  obtain a where a: "open_images w_toy
       [os_path_join3 TRAIN_DIR ''0'' ''a.jpg'', os_path_join3 TRAIN_DIR ''1'' ''bb.jpg''] = Inr a"
    "encode_png w_toy a = Inr (map (\<lambda>f. [of_nat (length f)])
       [os_path_join3 TRAIN_DIR ''0'' ''a.jpg'', os_path_join3 TRAIN_DIR ''1'' ''bb.jpg''])"
    by (rule toy_open_encode)
  obtain b where b: "open_images w_toy
       [os_path_join3 TEST_DIR ''1'' ''ccc.jpg'', os_path_join3 TEST_DIR ''1'' ''eeee.jpg''] = Inr b"
    "encode_png w_toy b = Inr (map (\<lambda>f. [of_nat (length f)])
       [os_path_join3 TEST_DIR ''1'' ''ccc.jpg'', os_path_join3 TEST_DIR ''1'' ''eeee.jpg''])"
    by (rule toy_open_encode)
  show ?thesis
    by (simp add: load_voets_def toy_class_imgs a b toy_lengths voets_labels_def voets_toy_def)
qed

theorem load_voets_layout_witness:
  "load_voets w_toy = Inr voets_toy \<and>
   (\<exists>tr0 tr1 te0 te1 dtr dte.
     listdir w_toy (os_path_join TRAIN_DIR ''0'') = Inr tr0 \<and>
     listdir w_toy (os_path_join TRAIN_DIR ''1'') = Inr tr1 \<and>
     listdir w_toy (os_path_join TEST_DIR ''0'') = Inr te0 \<and>
     listdir w_toy (os_path_join TEST_DIR ''1'') = Inr te1 \<and>
     voets_toy = [(''train'', Dataset dtr), (''test'', Dataset dte)] \<and>
     labels dtr = replicate (length (filter fnmatch_jpg tr0)) 0 @
                  replicate (length (filter fnmatch_jpg tr1)) 1 \<and>
     list_all2 (\<lambda>f png. \<exists>b. image_open_resize w_toy f IMG_SIZE = Inr b \<and> to_png w_toy b = Inr png)
       (map (os_path_join3 TRAIN_DIR ''0'') (filter fnmatch_jpg tr0) @
        map (os_path_join3 TRAIN_DIR ''1'') (filter fnmatch_jpg tr1))
       (images dtr) \<and>
     sorted (labels dtr) \<and> length (labels dtr) = length (images dtr) \<and>
     labels dte = replicate (length (filter fnmatch_jpg te0)) 0 @
                  replicate (length (filter fnmatch_jpg te1)) 1 \<and>
     list_all2 (\<lambda>f png. \<exists>b. image_open_resize w_toy f IMG_SIZE = Inr b \<and> to_png w_toy b = Inr png)
       (map (os_path_join3 TEST_DIR ''0'') (filter fnmatch_jpg te0) @
        map (os_path_join3 TEST_DIR ''1'') (filter fnmatch_jpg te1))
       (images dte) \<and>
     sorted (labels dte) \<and> length (labels dte) = length (images dte))"
proof -
  have wf: "\<forall>f b. image_open_resize w_toy f IMG_SIZE = Inr b \<longrightarrow> well_formed b"
    using toy_well_formed by blast
  show ?thesis
    by (intro conjI load_voets_toy load_voets_layout [OF load_voets_toy wf])
qed

subsection \<open>The driver\<close>

lemma tfrecord_path_fmt:
  "os_path_join d (fmt_tfrecord name sub) = tfrecord_path d (fmt_name_sub name sub)"
  by (simp add: fmt_tfrecord_def tfrecord_path_def fmt_name_sub_def)

lemma os_path_join_neq_dir:
  "\<not> startswith_sep b \<Longrightarrow> b \<noteq> [] \<Longrightarrow> os_path_join d b \<noteq> d"
  by (simp add: os_path_join_def)

lemma os_path_join_inject:
  "\<not> startswith_sep a \<Longrightarrow> \<not> startswith_sep b \<Longrightarrow> os_path_join d a = os_path_join d b \<longleftrightarrow> a = b"
  by (simp add: os_path_join_def)

lemma voets_paths:
  "tfrecord_path d (fmt_name_sub ''voets'' ''train'') \<noteq> tfrecord_path d (fmt_name_sub ''voets'' ''test'')"
  "tfrecord_path d (fmt_name_sub ''voets'' ''train'') \<noteq> d"
  "tfrecord_path d (fmt_name_sub ''voets'' ''test'') \<noteq> d"
  by (simp_all add: tfrecord_path_def fmt_name_sub_def os_path_join_inject os_path_join_neq_dir
      startswith_sep_def)

lemma gfile_exists_makedirs:
  "gfile_exists (gfile_makedirs d fsys) p \<longleftrightarrow> gfile_exists fsys p \<or> p = d"
  by (auto simp: gfile_exists_def gfile_makedirs_def)

lemma is_installed_voets:
  "is_installed d fsys ''voets'' [(''train'', None), (''test'', None)] \<longleftrightarrow>
   gfile_exists fsys (tfrecord_path d (fmt_name_sub ''voets'' ''train'')) \<and>
   gfile_exists fsys (tfrecord_path d (fmt_name_sub ''voets'' ''test''))"
  by (simp add: tfrecord_path_fmt)

lemma is_installed_voets_makedirs:
  "is_installed d (gfile_makedirs d fsys) ''voets'' [(''train'', None), (''test'', None)] \<longleftrightarrow>
   is_installed d fsys ''voets'' [(''train'', None), (''test'', None)]"
  unfolding is_installed_voets gfile_exists_makedirs by (simp add: voets_paths)

lemma prepare_result:
  "(case prepare w n c s of (Inl e, st') \<Rightarrow> (Inl e, st') | (Inr u, st') \<Rightarrow> main_loop w R [] st')
      = prepare w n c s"
  by (cases "prepare w n c s") (auto split: sum.splits)

lemma main_unfold:
  "main w argv st =
     (let st1 = st\<lparr>fs := gfile_makedirs (DATA_DIR w) (fs st)\<rparr> in
      if voets_requested argv \<and>
         \<not> is_installed (DATA_DIR w) (fs st) ''voets'' [(''train'', None), (''test'', None)]
      then prepare w ''voets'' (snd (hd CONFIGS)) st1
      else (Inr (), st1))"
  unfolding main_def main_with_def Let_def
  by (simp add: CONFIGS_def prepare_result skip_installed_def voets_requested_def
       is_installed_voets_makedirs del: is_installed.simps main_loop.simps(1)) simp

lemma prepare_voets:
  "prepare w ''voets'' (snd (hd CONFIGS)) st =
     (case load_voets w of
        Inl e \<Rightarrow> (Inl e, st\<lparr>loader_calls := loader_calls st @ [''voets'']\<rparr>)
      | Inr ds \<Rightarrow> save_datas (DATA_DIR w) (default_saver (DATA_DIR w)) ''voets'' ds
                   (st\<lparr>loader_calls := loader_calls st @ [''voets'']\<rparr>))"
  by (simp add: prepare_def CONFIGS_def Let_def split: sum.splits)

lemma save_datas_voets:
  assumes "length (images dtr) = length (labels dtr)" and "length (images dte) = length (labels dte)"
  shows "save_datas d (default_saver d) ''voets''
           [(''train'', Dataset dtr), (''test'', Dataset dte)] st =
     (Inr (), st\<lparr>fs :=
        build_records dte (tfrecord_path d (fmt_name_sub ''voets'' ''test'')) [0..<length (images dte)]
          (writer_open (tfrecord_path d (fmt_name_sub ''voets'' ''test''))
            (build_records dtr (tfrecord_path d (fmt_name_sub ''voets'' ''train'')) [0..<length (images dtr)]
              (writer_open (tfrecord_path d (fmt_name_sub ''voets'' ''train'')) (fs st))))\<rparr>)"
  by (simp add: save_one_def default_saver_def save_as_tfrecord_ok assms)

lemma dirs_writer_open: "dirs (writer_open p fsys) = dirs fsys"
  by (simp add: writer_open_def gfile_write_def)

lemma files_after_voets:
  fixes d dtr dte fsys
  defines "ptr \<equiv> tfrecord_path d (fmt_name_sub ''voets'' ''train'')"
    and "pte \<equiv> tfrecord_path d (fmt_name_sub ''voets'' ''test'')"
  defines "after \<equiv> build_records dte pte [0..<length (images dte)]
          (writer_open pte (build_records dtr ptr [0..<length (images dtr)] (writer_open ptr fsys)))"
  shows "files after ptr = Some (TFRecords (map (make_record dtr) [0..<length (images dtr)]))"
    and "files after pte = Some (TFRecords (map (make_record dte) [0..<length (images dte)]))"
    and "dirs after = dirs fsys"
proof -
  have ne: "ptr \<noteq> pte" unfolding ptr_def pte_def by (rule voets_paths(1))
  have "files after ptr = files (build_records dtr ptr [0..<length (images dtr)] (writer_open ptr fsys)) ptr"
    unfolding after_def using ne by (simp add: build_records_other files_writer_open_other)
  also have "\<dots> = Some (TFRecords (map (make_record dtr) [0..<length (images dtr)]))"
    using build_records_files [OF files_writer_open, of dtr ptr] by simp
  finally show "files after ptr = Some (TFRecords (map (make_record dtr) [0..<length (images dtr)]))" .
  show "files after pte = Some (TFRecords (map (make_record dte) [0..<length (images dte)]))"
    unfolding after_def using build_records_files [OF files_writer_open, of dte pte] by simp
  show "dirs after = dirs fsys"
    unfolding after_def by (simp add: build_records_dirs dirs_writer_open)
qed

lemma main_voets_run:
  assumes "voets_requested argv"
    and "\<not> is_installed (DATA_DIR w) (fs st) ''voets'' [(''train'', None), (''test'', None)]"
    and "load_voets w = Inr [(''train'', Dataset dtr), (''test'', Dataset dte)]"
    and "length (images dtr) = length (labels dtr)" and "length (images dte) = length (labels dte)"
  shows "main w argv st =
     (Inr (), \<lparr>fs = build_records dte (tfrecord_path (DATA_DIR w) (fmt_name_sub ''voets'' ''test''))
                    [0..<length (images dte)]
                  (writer_open (tfrecord_path (DATA_DIR w) (fmt_name_sub ''voets'' ''test''))
                    (build_records dtr (tfrecord_path (DATA_DIR w) (fmt_name_sub ''voets'' ''train''))
                       [0..<length (images dtr)]
                      (writer_open (tfrecord_path (DATA_DIR w) (fmt_name_sub ''voets'' ''train''))
                        (gfile_makedirs (DATA_DIR w) (fs st))))),
              loader_calls = loader_calls st @ [''voets'']\<rparr>)"
proof -
  let ?st1 = "st\<lparr>fs := gfile_makedirs (DATA_DIR w) (fs st)\<rparr>"
  let ?st2 = "?st1\<lparr>loader_calls := loader_calls ?st1 @ [''voets'']\<rparr>"
  have "main w argv st = prepare w ''voets'' (snd (hd CONFIGS)) ?st1"
    using assms(1,2) by (simp add: main_unfold del: is_installed.simps)
  also have "\<dots> = save_datas (DATA_DIR w) (default_saver (DATA_DIR w)) ''voets''
       [(''train'', Dataset dtr), (''test'', Dataset dte)] ?st2"
    by (simp add: prepare_voets assms(3) del: save_datas.simps)
  also note save_datas_voets [OF assms(4,5)]
  finally show ?thesis by (cases st) simp
qed

lemma main_skip:
  assumes "\<not> voets_requested argv \<or>
     is_installed (DATA_DIR w) (fs st) ''voets'' [(''train'', None), (''test'', None)]"
  shows "main w argv st = (Inr (), st\<lparr>fs := gfile_makedirs (DATA_DIR w) (fs st)\<rparr>)"
  using assms by (auto simp: main_unfold simp del: is_installed.simps)

lemma makedirs_idem: "d \<in> dirs fsys \<Longrightarrow> gfile_makedirs d fsys = fsys"
  by (simp add: gfile_makedirs_def insert_absorb)

lemma makedirs_twice: "gfile_makedirs d (gfile_makedirs d fsys) = gfile_makedirs d fsys"
  by (simp add: gfile_makedirs_def)

lemma main_idempotent:
  assumes "DATA_DIR w' = DATA_DIR w" and "fst (main w argv st) = Inr ()"
  shows "main w' argv (snd (main w argv st)) = (Inr (), snd (main w argv st))"
proof (cases "voets_requested argv \<and>
    \<not> is_installed (DATA_DIR w) (fs st) ''voets'' [(''train'', None), (''test'', None)]")
  case False
  let ?st1 = "st\<lparr>fs := gfile_makedirs (DATA_DIR w) (fs st)\<rparr>"
  from False have m: "main w argv st = (Inr (), ?st1)"
    by (intro main_skip) blast
  from False have "\<not> voets_requested argv \<or>
     is_installed (DATA_DIR w') (fs ?st1) ''voets'' [(''train'', None), (''test'', None)]"
    by (simp add: assms(1) is_installed_voets_makedirs del: is_installed.simps)
  from main_skip [OF this] show ?thesis
    by (simp add: m assms(1) makedirs_twice)
next
  case True
  from True assms(2) obtain ds where ds: "load_voets w = Inr ds"
    by (cases "load_voets w") (auto simp: main_unfold prepare_voets simp del: is_installed.simps)
  from load_voets_counts [OF ds] obtain dtr dte where
    d: "ds = [(''train'', Dataset dtr), (''test'', Dataset dte)]"
    and l: "length (images dtr) = length (labels dtr)" "length (images dte) = length (labels dte)"
    by blast
  let ?ptr = "tfrecord_path (DATA_DIR w) (fmt_name_sub ''voets'' ''train'')"
  let ?pte = "tfrecord_path (DATA_DIR w) (fmt_name_sub ''voets'' ''test'')"
  let ?after = "build_records dte ?pte [0..<length (images dte)]
     (writer_open ?pte (build_records dtr ?ptr [0..<length (images dtr)]
        (writer_open ?ptr (gfile_makedirs (DATA_DIR w) (fs st)))))"
  let ?st3 = "\<lparr>fs = ?after, loader_calls = loader_calls st @ [''voets'']\<rparr>"
  from True have m: "main w argv st = (Inr (), ?st3)"
    by (intro main_voets_run [OF _ _ ds [unfolded d] l]) simp_all
  have dirs: "DATA_DIR w \<in> dirs ?after"
    by (simp add: files_after_voets(3) gfile_makedirs_def)
  have i: "gfile_makedirs (DATA_DIR w) ?after = ?after"
    using dirs by (rule makedirs_idem)
  have inst: "is_installed (DATA_DIR w') (fs ?st3) ''voets'' [(''train'', None), (''test'', None)]"
    unfolding is_installed_voets assms(1)
    by (simp add: gfile_exists_def files_after_voets(1,2))
  from main_skip [of argv w' ?st3] inst
  have "main w' argv ?st3 = (Inr (), ?st3\<lparr>fs := gfile_makedirs (DATA_DIR w') (fs ?st3)\<rparr>)"
    by blast
  then show ?thesis
    by (simp add: m assms(1) i)
qed

lemma voets_path_literals:
  "tfrecord_path d (fmt_name_sub ''voets'' ''train'') = os_path_join d ''voets-train.tfrecord''"
  "tfrecord_path d (fmt_name_sub ''voets'' ''test'') = os_path_join d ''voets-test.tfrecord''"
  by (simp_all add: tfrecord_path_def fmt_name_sub_def)

text \<open>
  C3, as the code has it: the registry the driver iterates over holds the single key
  \<^verbatim>\<open>voets\<close>. A run whose arguments name other datasets only (\<^verbatim>\<open>svhn\<close>, \<^verbatim>\<open>cifar10\<close>,
  \<^verbatim>\<open>cifar100\<close>, \<^verbatim>\<open>stl10\<close>, \<^verbatim>\<open>mnist\<close>, \<^verbatim>\<open>fashion_mnist\<close>, ...) ends normally having called no
  loader and written no file: it only makes the output directory. A run with the argument
  \<^verbatim>\<open>voets\<close>, when the two output files are not both there, calls the local-folder loader
  and, when that returns, writes the records of its \<^verbatim>\<open>train\<close> and \<^verbatim>\<open>test\<close> splits.
\<close>

theorem registry_reaches_only_voets:
  "map fst CONFIGS = [''voets''] \<and>
   (names \<noteq> [] \<and> ''voets'' \<notin> set names \<longrightarrow>
      main w (prog # names) st = (Inr (), st\<lparr>fs := gfile_makedirs (DATA_DIR w) (fs st)\<rparr>)) \<and>
   (\<not> (gfile_exists (fs st) (os_path_join (DATA_DIR w) ''voets-train.tfrecord'') \<and>
        gfile_exists (fs st) (os_path_join (DATA_DIR w) ''voets-test.tfrecord'')) \<longrightarrow>
      loader_calls (snd (main w [prog, ''voets''] st)) = loader_calls st @ [''voets''] \<and>
      (\<forall>ds. load_voets w = Inr ds \<longrightarrow>
        (\<exists>dtr dte st'.
           ds = [(''train'', Dataset dtr), (''test'', Dataset dte)] \<and>
           main w [prog, ''voets''] st = (Inr (), st') \<and>
           files (fs st') (os_path_join (DATA_DIR w) ''voets-train.tfrecord'')
             = Some (TFRecords (map (make_record dtr) [0..<length (images dtr)])) \<and>
           files (fs st') (os_path_join (DATA_DIR w) ''voets-test.tfrecord'')
             = Some (TFRecords (map (make_record dte) [0..<length (images dte)])))))"
proof (intro conjI impI allI)
  show "map fst CONFIGS = [''voets'']" by (simp add: CONFIGS_def)
next
  assume "names \<noteq> [] \<and> ''voets'' \<notin> set names"
  then have "\<not> voets_requested (prog # names)" by (simp add: voets_requested_def)
  then show "main w (prog # names) st = (Inr (), st\<lparr>fs := gfile_makedirs (DATA_DIR w) (fs st)\<rparr>)"
    by (intro main_skip) blast
next
  assume a: "\<not> (gfile_exists (fs st) (os_path_join (DATA_DIR w) ''voets-train.tfrecord'') \<and>
        gfile_exists (fs st) (os_path_join (DATA_DIR w) ''voets-test.tfrecord''))"
  then have n: "\<not> is_installed (DATA_DIR w) (fs st) ''voets'' [(''train'', None), (''test'', None)]"
    unfolding is_installed_voets voets_path_literals .
  have r: "voets_requested [prog, ''voets'']" by (simp add: voets_requested_def)
  from n r have m: "main w [prog, ''voets''] st =
      prepare w ''voets'' (snd (hd CONFIGS)) (st\<lparr>fs := gfile_makedirs (DATA_DIR w) (fs st)\<rparr>)"
    by (simp add: main_unfold del: is_installed.simps)
  show "loader_calls (snd (main w [prog, ''voets''] st)) = loader_calls st @ [''voets'']"
  proof (cases "load_voets w")
    case (Inl e)
    then show ?thesis by (simp add: m prepare_voets)
  next
    case (Inr ds)
    from load_voets_counts [OF Inr] obtain dtr dte where
      d: "ds = [(''train'', Dataset dtr), (''test'', Dataset dte)]"
      and l: "length (images dtr) = length (labels dtr)" "length (images dte) = length (labels dte)"
      by blast
    from main_voets_run [OF r n Inr [unfolded d] l] show ?thesis by simp
  qed
  fix ds assume ds: "load_voets w = Inr ds"
  from load_voets_counts [OF ds] obtain dtr dte where
    d: "ds = [(''train'', Dataset dtr), (''test'', Dataset dte)]"
    and l: "length (images dtr) = length (labels dtr)" "length (images dte) = length (labels dte)"
    by blast
  let ?after = "build_records dte (tfrecord_path (DATA_DIR w) (fmt_name_sub ''voets'' ''test''))
                    [0..<length (images dte)]
                  (writer_open (tfrecord_path (DATA_DIR w) (fmt_name_sub ''voets'' ''test''))
                    (build_records dtr (tfrecord_path (DATA_DIR w) (fmt_name_sub ''voets'' ''train''))
                       [0..<length (images dtr)]
                      (writer_open (tfrecord_path (DATA_DIR w) (fmt_name_sub ''voets'' ''train''))
                        (gfile_makedirs (DATA_DIR w) (fs st)))))"
  let ?st' = "\<lparr>fs = ?after, loader_calls = loader_calls st @ [''voets'']\<rparr>"
  have 1: "main w [prog, ''voets''] st = (Inr (), ?st')"
    by (rule main_voets_run [OF r n ds [unfolded d] l])
  have 2: "files (fs ?st') (os_path_join (DATA_DIR w) ''voets-train.tfrecord'')
             = Some (TFRecords (map (make_record dtr) [0..<length (images dtr)]))"
    using files_after_voets(1) [of dte "DATA_DIR w" dtr] by (simp add: voets_path_literals)
  have 3: "files (fs ?st') (os_path_join (DATA_DIR w) ''voets-test.tfrecord'')
             = Some (TFRecords (map (make_record dte) [0..<length (images dte)]))"
    using files_after_voets(2) [of dte "DATA_DIR w" dtr] by (simp add: voets_path_literals)
  show "\<exists>dtr dte st'.
           ds = [(''train'', Dataset dtr), (''test'', Dataset dte)] \<and>
           main w [prog, ''voets''] st = (Inr (), st') \<and>
           files (fs st') (os_path_join (DATA_DIR w) ''voets-train.tfrecord'')
             = Some (TFRecords (map (make_record dtr) [0..<length (images dtr)])) \<and>
           files (fs st') (os_path_join (DATA_DIR w) ''voets-test.tfrecord'')
             = Some (TFRecords (map (make_record dte) [0..<length (images dte)]))"
    by (intro exI [of _ dtr] exI [of _ dte] exI [of _ ?st'] conjI d 1 2 3)
qed

theorem registry_reaches_only_voets_witness:
  "main w_toy [''create_datasets.py'', ''svhn''] st0
     = (Inr (), st0\<lparr>fs := gfile_makedirs (DATA_DIR w_toy) (fs st0)\<rparr>) \<and>
   main w_toy [''create_datasets.py'', ''cifar10''] st0
     = (Inr (), st0\<lparr>fs := gfile_makedirs (DATA_DIR w_toy) (fs st0)\<rparr>) \<and>
   main w_toy [''create_datasets.py'', ''cifar100''] st0
     = (Inr (), st0\<lparr>fs := gfile_makedirs (DATA_DIR w_toy) (fs st0)\<rparr>) \<and>
   main w_toy [''create_datasets.py'', ''stl10''] st0
     = (Inr (), st0\<lparr>fs := gfile_makedirs (DATA_DIR w_toy) (fs st0)\<rparr>) \<and>
   main w_toy [''create_datasets.py'', ''mnist''] st0
     = (Inr (), st0\<lparr>fs := gfile_makedirs (DATA_DIR w_toy) (fs st0)\<rparr>) \<and>
   main w_toy [''create_datasets.py'', ''fashion_mnist''] st0
     = (Inr (), st0\<lparr>fs := gfile_makedirs (DATA_DIR w_toy) (fs st0)\<rparr>) \<and>
   loader_calls (snd (main w_toy [''create_datasets.py'', ''voets''] st0)) = [''voets''] \<and>
   (\<exists>dtr dte st'.
      voets_toy = [(''train'', Dataset dtr), (''test'', Dataset dte)] \<and>
      main w_toy [''create_datasets.py'', ''voets''] st0 = (Inr (), st') \<and>
      files (fs st') (os_path_join (DATA_DIR w_toy) ''voets-train.tfrecord'')
        = Some (TFRecords (map (make_record dtr) [0..<length (images dtr)])) \<and>
      files (fs st') (os_path_join (DATA_DIR w_toy) ''voets-test.tfrecord'')
        = Some (TFRecords (map (make_record dte) [0..<length (images dte)])))"
proof -
  note t = registry_reaches_only_voets [of _ w_toy "''create_datasets.py''" st0]
  have absent: "\<not> (gfile_exists (fs st0) (os_path_join (DATA_DIR w_toy) ''voets-train.tfrecord'') \<and>
        gfile_exists (fs st0) (os_path_join (DATA_DIR w_toy) ''voets-test.tfrecord''))"
    by (simp add: st0_def gfile_exists_def)
  have 1: "main w_toy [''create_datasets.py'', ''svhn''] st0
     = (Inr (), st0\<lparr>fs := gfile_makedirs (DATA_DIR w_toy) (fs st0)\<rparr>)"
    by (rule t [of "[''svhn'']", THEN conjunct2, THEN conjunct1, rule_format]) simp
  have 2: "main w_toy [''create_datasets.py'', ''cifar10''] st0
     = (Inr (), st0\<lparr>fs := gfile_makedirs (DATA_DIR w_toy) (fs st0)\<rparr>)"
    by (rule t [of "[''cifar10'']", THEN conjunct2, THEN conjunct1, rule_format]) simp
  have 3: "main w_toy [''create_datasets.py'', ''cifar100''] st0
     = (Inr (), st0\<lparr>fs := gfile_makedirs (DATA_DIR w_toy) (fs st0)\<rparr>)"
    by (rule t [of "[''cifar100'']", THEN conjunct2, THEN conjunct1, rule_format]) simp
  have 4: "main w_toy [''create_datasets.py'', ''stl10''] st0
     = (Inr (), st0\<lparr>fs := gfile_makedirs (DATA_DIR w_toy) (fs st0)\<rparr>)"
    by (rule t [of "[''stl10'']", THEN conjunct2, THEN conjunct1, rule_format]) simp
  have 5: "main w_toy [''create_datasets.py'', ''mnist''] st0
     = (Inr (), st0\<lparr>fs := gfile_makedirs (DATA_DIR w_toy) (fs st0)\<rparr>)"
    by (rule t [of "[''mnist'']", THEN conjunct2, THEN conjunct1, rule_format]) simp
  have 6: "main w_toy [''create_datasets.py'', ''fashion_mnist''] st0
     = (Inr (), st0\<lparr>fs := gfile_makedirs (DATA_DIR w_toy) (fs st0)\<rparr>)"
    by (rule t [of "[''fashion_mnist'']", THEN conjunct2, THEN conjunct1, rule_format]) simp
  note v = t [of "[]", THEN conjunct2, THEN conjunct2, rule_format, OF absent]
  have 7: "loader_calls (snd (main w_toy [''create_datasets.py'', ''voets''] st0)) = [''voets'']"
    using v [THEN conjunct1] by (simp add: st0_def)
  note 8 = v [THEN conjunct2, rule_format, OF load_voets_toy]
  show ?thesis by (intro conjI 1 2 3 4 5 6 7 8)
qed

text \<open>
  The claim C3 as stated fails: with the argument \<^verbatim>\<open>cifar10\<close> and no output file present,
  the run ends normally, calls no loader and leaves the output store without any file.
\<close>

theorem registry_misses_cifar10_counterexample:
  "\<not> gfile_exists (fs st0) (os_path_join (DATA_DIR w_toy) ''cifar10-train.tfrecord'') \<and>
   \<not> gfile_exists (fs st0) (os_path_join (DATA_DIR w_toy) ''cifar10-test.tfrecord'') \<and>
   fst (main w_toy [''create_datasets.py'', ''cifar10''] st0) = Inr () \<and>
   loader_calls (snd (main w_toy [''create_datasets.py'', ''cifar10''] st0)) = [] \<and>
   files (fs (snd (main w_toy [''create_datasets.py'', ''cifar10''] st0))) = Map.empty"
proof -
  have "\<not> voets_requested [''create_datasets.py'', ''cifar10'']"
    by (simp add: voets_requested_def)
  then have "main w_toy [''create_datasets.py'', ''cifar10''] st0
     = (Inr (), st0\<lparr>fs := gfile_makedirs (DATA_DIR w_toy) (fs st0)\<rparr>)"
    by (intro main_skip) blast
  then show ?thesis
    by (simp add: st0_def gfile_exists_def gfile_makedirs_def)
qed

text \<open>
  C7: when both output files of the registered dataset exist, a run (whatever its
  arguments) ends normally without calling any loader. A run that ended normally and had
  the dataset requested leaves both files in place, under the names the checker tests; and
  running the driver again with the same arguments on the state a normal run left calls no
  loader and changes nothing.
\<close>

theorem second_run_invokes_no_loader:
  "(gfile_exists (fs st) (os_path_join (DATA_DIR w) ''voets-train.tfrecord'') \<and>
    gfile_exists (fs st) (os_path_join (DATA_DIR w) ''voets-test.tfrecord'') \<longrightarrow>
      fst (main w argv st) = Inr () \<and>
      loader_calls (snd (main w argv st)) = loader_calls st) \<and>
   (DATA_DIR w' = DATA_DIR w \<and> fst (main w argv st) = Inr () \<longrightarrow>
      main w' argv (snd (main w argv st)) = (Inr (), snd (main w argv st))) \<and>
   (fst (main w argv st) = Inr () \<and> (drop 1 argv = [] \<or> ''voets'' \<in> set (drop 1 argv)) \<longrightarrow>
      gfile_exists (fs (snd (main w argv st))) (os_path_join (DATA_DIR w) ''voets-train.tfrecord'') \<and>
      gfile_exists (fs (snd (main w argv st))) (os_path_join (DATA_DIR w) ''voets-test.tfrecord''))"
proof (intro conjI impI)
  assume "gfile_exists (fs st) (os_path_join (DATA_DIR w) ''voets-train.tfrecord'') \<and>
    gfile_exists (fs st) (os_path_join (DATA_DIR w) ''voets-test.tfrecord'')"
  then have "is_installed (DATA_DIR w) (fs st) ''voets'' [(''train'', None), (''test'', None)]"
    unfolding is_installed_voets voets_path_literals .
  then have m: "main w argv st = (Inr (), st\<lparr>fs := gfile_makedirs (DATA_DIR w) (fs st)\<rparr>)"
    by (intro main_skip) blast
  from m show "fst (main w argv st) = Inr ()" by simp
  from m show "loader_calls (snd (main w argv st)) = loader_calls st" by simp
next
  assume "DATA_DIR w' = DATA_DIR w \<and> fst (main w argv st) = Inr ()"
  then show "main w' argv (snd (main w argv st)) = (Inr (), snd (main w argv st))"
    by (intro main_idempotent) simp_all
next
  assume a: "fst (main w argv st) = Inr () \<and> (drop 1 argv = [] \<or> ''voets'' \<in> set (drop 1 argv))"
  then have r: "voets_requested argv" by (simp add: voets_requested_def)
  from a have ok: "fst (main w argv st) = Inr ()" by simp
  have "is_installed (DATA_DIR w) (fs (snd (main w argv st))) ''voets'' [(''train'', None), (''test'', None)]"
  proof (cases "is_installed (DATA_DIR w) (fs st) ''voets'' [(''train'', None), (''test'', None)]")
    case True
    then have "main w argv st = (Inr (), st\<lparr>fs := gfile_makedirs (DATA_DIR w) (fs st)\<rparr>)"
      by (intro main_skip) blast
    with True show ?thesis
      by (simp add: is_installed_voets_makedirs del: is_installed.simps)
  next
    case False
    with r ok obtain ds where ds: "load_voets w = Inr ds"
      by (cases "load_voets w") (auto simp: main_unfold prepare_voets simp del: is_installed.simps)
    from load_voets_counts [OF ds] obtain dtr dte where
      d: "ds = [(''train'', Dataset dtr), (''test'', Dataset dte)]"
      and l: "length (images dtr) = length (labels dtr)" "length (images dte) = length (labels dte)"
      by blast
    show ?thesis
      unfolding is_installed_voets main_voets_run [OF r False ds [unfolded d] l]
      by (simp add: gfile_exists_def files_after_voets(1,2))
  qed
  then have e: "gfile_exists (fs (snd (main w argv st))) (os_path_join (DATA_DIR w) ''voets-train.tfrecord'') \<and>
      gfile_exists (fs (snd (main w argv st))) (os_path_join (DATA_DIR w) ''voets-test.tfrecord'')"
    unfolding is_installed_voets voets_path_literals .
  from e show "gfile_exists (fs (snd (main w argv st))) (os_path_join (DATA_DIR w) ''voets-train.tfrecord'')"
    by (rule conjunct1)
  from e show "gfile_exists (fs (snd (main w argv st))) (os_path_join (DATA_DIR w) ''voets-test.tfrecord'')"
    by (rule conjunct2)
qed

lemma main_toy_first_run:
  "fst (main w_toy [''create_datasets.py'', ''voets''] st0) = Inr ()"
  "loader_calls (snd (main w_toy [''create_datasets.py'', ''voets''] st0)) = [''voets'']"
proof -
  have r: "voets_requested [''create_datasets.py'', ''voets'']"
    by (simp add: voets_requested_def)
  have n: "\<not> is_installed (DATA_DIR w_toy) (fs st0) ''voets'' [(''train'', None), (''test'', None)]"
    by (simp add: st0_def gfile_exists_def)
  note m = main_voets_run [OF r n load_voets_toy [unfolded voets_toy_def]]
  have l: "length (images \<lparr>images = [[70], [71]], labels = [0, 1]\<rparr>)
         = length (labels \<lparr>images = [[70], [71]], labels = [0, 1]\<rparr>)"
    "length (images \<lparr>images = [[71], [72]], labels = [1, 1]\<rparr>)
         = length (labels \<lparr>images = [[71], [72]], labels = [1, 1]\<rparr>)"
    by simp_all
  from m [OF l] show "fst (main w_toy [''create_datasets.py'', ''voets''] st0) = Inr ()"
    by simp
  from m [OF l] show "loader_calls (snd (main w_toy [''create_datasets.py'', ''voets''] st0)) = [''voets'']"
    by (simp add: st0_def)
qed

theorem second_run_invokes_no_loader_witness:
  "fst (main w_toy [''create_datasets.py'', ''voets''] st0) = Inr () \<and>
   loader_calls (snd (main w_toy [''create_datasets.py'', ''voets''] st0)) = [''voets''] \<and>
   gfile_exists (fs (snd (main w_toy [''create_datasets.py'', ''voets''] st0)))
     (os_path_join (DATA_DIR w_toy) ''voets-train.tfrecord'') \<and>
   gfile_exists (fs (snd (main w_toy [''create_datasets.py'', ''voets''] st0)))
     (os_path_join (DATA_DIR w_toy) ''voets-test.tfrecord'') \<and>
   main w_toy [''create_datasets.py'', ''voets'']
       (snd (main w_toy [''create_datasets.py'', ''voets''] st0))
     = (Inr (), snd (main w_toy [''create_datasets.py'', ''voets''] st0)) \<and>
   loader_calls (snd (main w_toy [''create_datasets.py'', ''voets'']
       (snd (main w_toy [''create_datasets.py'', ''voets''] st0)))) = [''voets'']"
proof -
  note t = second_run_invokes_no_loader
    [where w = w_toy and w' = w_toy and st = st0 and argv = "[''create_datasets.py'', ''voets'']"]
  note ok = main_toy_first_run(1)
  have req: "drop 1 [''create_datasets.py'', ''voets''] = [] \<or>
     ''voets'' \<in> set (drop 1 [''create_datasets.py'', ''voets''])" by simp
  from t [THEN conjunct2, THEN conjunct1, rule_format, OF conjI, OF refl ok]
  have again: "main w_toy [''create_datasets.py'', ''voets'']
       (snd (main w_toy [''create_datasets.py'', ''voets''] st0))
     = (Inr (), snd (main w_toy [''create_datasets.py'', ''voets''] st0))" .
  note ex = t [THEN conjunct2, THEN conjunct2, rule_format, OF conjI, OF ok req]
  have calls: "loader_calls (snd (main w_toy [''create_datasets.py'', ''voets'']
       (snd (main w_toy [''create_datasets.py'', ''voets''] st0)))) = [''voets'']"
    by (simp add: again main_toy_first_run(2))
  show ?thesis
    by (intro conjI ok main_toy_first_run(2) ex [THEN conjunct1] ex [THEN conjunct2] again calls)
qed

end
